theory Spec2Isabelle
  imports Complex_Main "HOL-Library.Multiset" "HOL-Library.Log_Nat"
begin

section \<open>The dice roller: data model\<close>

text \<open>
  A shallow embedding of the evaluator class \<^verbatim>\<open>DiceRoller\<close> (the roller source next to
  \<^verbatim>\<open>async_map_funcs\<close>). JavaScript numbers are modelled as exact reals: the arithmetic
  of the model is the arithmetic of the source wherever the source's doubles are exact
  (integers and dyadic fractions of moderate size), and \<^verbatim>\<open>NaN\<close> and the infinities have
  no counterpart. Where the source would produce one of those, the model stops with the
  error \<open>OutsideExactArithmetic\<close>.

  The declarations of the syntax tree (\<^verbatim>\<open>parsedRollTypes\<close>) and of the result tree
  (\<^verbatim>\<open>rollTypes\<close>) are imported by the source but are not part of it; the types below list
  the fields the evaluator reads and writes.
\<close>

datatype error =
    UnableToRender string        \<comment> \<open>\<^verbatim>\<open>Unable to render ${input.type}\<close>\<close>
  | TooManyDice                  \<comment> \<open>\<^verbatim>\<open>Entered number of dice too large.\<close>\<close>
  | ModNotRecognised string      \<comment> \<open>\<^verbatim>\<open>Mod ${mod.type} is not recognised\<close>\<close>
  | InvalidRerollTarget          \<comment> \<open>\<^verbatim>\<open>Invalid reroll target\<close>\<close>
  | CannotReroll string          \<comment> \<open>\<^verbatim>\<open>Cannot do a reroll of a ${roll.type}.\<close>\<close>
  | TypeError                    \<comment> \<open>a property read on \<^verbatim>\<open>undefined\<close>, or a spread of \<^verbatim>\<open>undefined\<close>\<close>
  | ResolverRejected string      \<comment> \<open>the injected replacement resolver rejects\<close>
  | OutsideExactArithmetic       \<comment> \<open>the source continues with \<^verbatim>\<open>NaN\<close>, an infinity or an irrational\<close>

subsection \<open>Result nodes\<close>

text \<open>
  \<^verbatim>\<open>RollBase\<close>: the fields every result node has. \<open>drop_flag\<close> is the property
  \<^verbatim>\<open>drop\<close> that keep and drop add to an entry (absent is \<open>False\<close>).
\<close>

record RollFields =
  "value" :: real
  valid :: bool
  success :: "bool option"
  successes :: int
  failures :: int
  order :: nat
  label :: "string option"
  drop_flag :: bool

text \<open>
  \<^verbatim>\<open>DieRollBase\<close>: one trial, \<^verbatim>\<open>DieRoll\<close> (type \<^verbatim>\<open>"roll"\<close>, with \<open>die\<close> and
  \<open>critical\<close>) or \<^verbatim>\<open>FateDieRoll\<close> (type \<^verbatim>\<open>"fateroll"\<close>, where \<open>die\<close> is absent).
  An absent string is the empty string, an absent flag is \<open>False\<close>.
\<close>

record DieRollBase = RollFields +
  type :: string
  die :: "real option"
  roll :: real
  critical :: "string option"
  matched :: bool
  reroll :: bool
  explode :: bool

datatype RollBase =
    NumberRoll RollFields
  | DieRoll DieRollBase
  | FateRoll RollFields
  | DiceRollResult RollFields RollBase RollBase "DieRollBase list" bool
  | DiceExpressionRoll RollFields "RollBase list" "string list"
  | ExpressionRoll RollFields "RollBase list" "string list"
  | GroupRoll RollFields "RollBase list"
  | MathFunctionRoll RollFields RollBase string
  | ReplacementRoll RollFields string RollBase

text \<open>The \<^verbatim>\<open>type\<close> discriminator of a result node.\<close>

fun rollType_of :: "RollBase \<Rightarrow> string" where
  "rollType_of (NumberRoll f) = ''number''"
| "rollType_of (DieRoll r) = type r"
| "rollType_of (FateRoll f) = ''fate''"
| "rollType_of (DiceRollResult f c d rs m) = ''die''"
| "rollType_of (DiceExpressionRoll f ds os) = ''diceexpressionroll''"
| "rollType_of (ExpressionRoll f ds os) = ''expressionroll''"
| "rollType_of (GroupRoll f ds) = ''grouproll''"
| "rollType_of (MathFunctionRoll f e opn) = ''mathfunction''"
| "rollType_of (ReplacementRoll f c e) = ''replacement''"

text \<open>Reading and writing the \<^verbatim>\<open>RollBase\<close> fields of a node of either kind.\<close>

definition trialFields :: "DieRollBase \<Rightarrow> RollFields" where
  "trialFields r = RollFields.truncate r"

definition putTrialFields :: "RollFields \<Rightarrow> DieRollBase \<Rightarrow> DieRollBase" where
  "putTrialFields f r = r\<lparr>value := value f, valid := valid f, success := success f,
     successes := successes f, failures := failures f, order := order f, label := label f,
     drop_flag := drop_flag f\<rparr>"

fun getFields :: "RollBase \<Rightarrow> RollFields" where
  "getFields (NumberRoll f) = f"
| "getFields (DieRoll r) = trialFields r"
| "getFields (FateRoll f) = f"
| "getFields (DiceRollResult f c d rs m) = f"
| "getFields (DiceExpressionRoll f ds os) = f"
| "getFields (ExpressionRoll f ds os) = f"
| "getFields (GroupRoll f ds) = f"
| "getFields (MathFunctionRoll f e opn) = f"
| "getFields (ReplacementRoll f c e) = f"

fun putFields :: "RollFields \<Rightarrow> RollBase \<Rightarrow> RollBase" where
  "putFields g (NumberRoll f) = NumberRoll g"
| "putFields g (DieRoll r) = DieRoll (putTrialFields g r)"
| "putFields g (FateRoll f) = FateRoll g"
| "putFields g (DiceRollResult f c d rs m) = DiceRollResult g c d rs m"
| "putFields g (DiceExpressionRoll f ds os) = DiceExpressionRoll g ds os"
| "putFields g (ExpressionRoll f ds os) = ExpressionRoll g ds os"
| "putFields g (GroupRoll f ds) = GroupRoll g ds"
| "putFields g (MathFunctionRoll f e opn) = MathFunctionRoll g e opn"
| "putFields g (ReplacementRoll f c e) = ReplacementRoll g c e"

subsection \<open>Syntax tree\<close>

text \<open>
  One constructor per node variant the dispatcher knows, each with its optional label
  last, and \<open>OtherType\<close> for any other discriminator. A modifier is one constructor
  per \<^verbatim>\<open>mod.type\<close> the source switches on, and \<open>OtherMod\<close> for the rest. Comparators
  (\<^verbatim>\<open>mod.mod\<close>), operators and \<^verbatim>\<open>highlow\<close> stay strings, compared as the source compares
  them. The \<open>die\<close> of a dice roll is \<open>FateExpr\<close> or the expression of the face count.
\<close>

datatype RootType =
    NumberType real "string option"
  | InlineExpression RootType "string option"
  | MathExpression RootType "(string \<times> RootType) list" "string option"
  | RollExpressionType RootType "(string \<times> RootType) list" "string option"
  | MathFunctionExpression string RootType "string option"
  | CustomReplacementExpression string RootType "string option"
  | GroupedRoll "RootType list" "ParsedType list option" "string option"
  | DiceRoll RootType DieExpr "ParsedType list option" "ParsedType list option"
      "MatchModType option" "bool option" "string option"
  | OtherType string "string option"
and DieExpr =
    FateExpr
  | RollExpr RootType
and ParsedType =
    Keep string RootType
  | Drop string RootType
  | Success string RootType
  | Failure string RootType
  | Crit string RootType
  | CritFail string RootType
  | Explode "(string \<times> RootType) option"
  | Compound "(string \<times> RootType) option"
  | Penetrate "(string \<times> RootType) option"
  | ReRoll "(string \<times> RootType) option"
  | ReRollOnce "(string \<times> RootType) option"
  | OtherMod string
and MatchModType =
    MatchModType real bool "string option" "RootType option"

subsection \<open>The roller and its state\<close>

text \<open>
  The three constructor arguments of \<^verbatim>\<open>DiceRoller\<close>. The injected random source is a
  function with hidden state; a deterministic source is the sequence of the numbers it
  returns, \<open>randFunction cfg k\<close> being the result of its \<open>k\<close>-th call (from 0). The
  resolver is asynchronous in the source; here it answers with a transform or rejects.

  The fourth field belongs to the runtime, not to the class. The members of a group are
  started together (\<^verbatim>\<open>async_map\<close> is \<^verbatim>\<open>Promise.all(array.map(func))\<close>), and the job
  queue of the runtime decides in which order they reach their calls of the source. The
  model evaluates the members from left to right; \<open>schedule cfg k\<close> is the position, in
  the order of the job queue, of the call that is the \<open>k\<close>-th in the order of the model.
  Where no two members of a group draw, the schedule is the identity.
\<close>

record DiceRoller =
  randFunction :: "nat \<Rightarrow> real"
  maxRollCount :: real
  replacementFunctions :: "string \<Rightarrow> (real \<Rightarrow> real) option"
  schedule :: "nat \<Rightarrow> nat"

text \<open>
  What changes during an evaluation: how many samples have been drawn from the source,
  and the field \<^verbatim>\<open>cached\<close>.
\<close>

record RollerState =
  drawn :: nat
  cached :: "string \<Rightarrow> (real \<Rightarrow> real) option"

text \<open>
  A computation that always returns (\<open>Step\<close>): its result or the error thrown, and
  the state it leaves. An \<open>Eval\<close> may also not return at all (\<open>None\<close>): the
  \<^verbatim>\<open>while\<close> loop of the plain reroll has no bound.
\<close>

type_synonym 'a Step = "RollerState \<Rightarrow> (error + 'a) \<times> RollerState"
type_synonym 'a Eval = "RollerState \<Rightarrow> ((error + 'a) \<times> RollerState) option"

definition ret :: "'a \<Rightarrow> 'a Eval" where
  "ret x = (\<lambda>st. Some (Inr x, st))"

definition throw :: "error \<Rightarrow> 'a Eval" where
  "throw e = (\<lambda>st. Some (Inl e, st))"

definition lift :: "'a Step \<Rightarrow> 'a Eval" where
  "lift m = (\<lambda>st. Some (m st))"

definition andThen :: "'a Eval \<Rightarrow> ('a \<Rightarrow> 'b Eval) \<Rightarrow> 'b Eval" where
  "andThen m k = (\<lambda>st. case m st of
       None \<Rightarrow> None
     | Some (Inl e, st') \<Rightarrow> Some (Inl e, st')
     | Some (Inr x, st') \<Rightarrow> k x st')"

section \<open>Primitives\<close>

subsection \<open>successTest\<close>

fun successTest :: "string \<Rightarrow> real \<Rightarrow> real \<Rightarrow> bool" where
  "successTest cmp target x =
     (if cmp = ''>'' then x \<ge> target
      else if cmp = ''<'' then x \<le> target
      else x = target)"

subsection \<open>Random trials\<close>

text \<open>
  \<^verbatim>\<open>parseInt(x.toFixed(), 10)\<close>. With no argument \<^verbatim>\<open>toFixed\<close> prints the integer
  nearest to \<open>x\<close>, the larger in magnitude of the two at a tie, with the sign of \<open>x\<close>.
  From \<open>10^21\<close> on it prints the exponent notation instead, of which \<^verbatim>\<open>parseInt\<close>
  reads the digit before the point.
\<close>

definition leadingDigit :: "nat \<Rightarrow> nat" where
  "leadingDigit n = n div 10 ^ (floorlog 10 n - 1)"

definition parseIntToFixed :: "real \<Rightarrow> int" where
  "parseIntToFixed x =
     (let a = \<bar>x\<bar>;
          n = (if a < 10 ^ 21 then \<lfloor>a + 1 / 2\<rfloor> else int (leadingDigit (nat \<lfloor>a\<rfloor>)))
      in if x < 0 then - n else n)"

definition nextRandom :: "DiceRoller \<Rightarrow> RollerState \<Rightarrow> real \<times> RollerState" where
  "nextRandom cfg st = (randFunction cfg (schedule cfg (drawn st)), st\<lparr>drawn := Suc (drawn st)\<rparr>)"

definition generateDiceRoll :: "DiceRoller \<Rightarrow> real \<Rightarrow> nat \<Rightarrow> RollerState \<Rightarrow> DieRollBase \<times> RollerState" where
  "generateDiceRoll cfg d ord st =
     (let (x, st') = nextRandom cfg st;
          r = real_of_int (parseIntToFixed (x * d)) + 1;
          crit = (if r = d then Some ''success'' else if r = 1 then Some ''failure'' else None)
      in (\<lparr>value = r, valid = True, success = None, successes = 0, failures = 0,
           order = ord, label = None, drop_flag = False,
           type = ''roll'', die = Some d, roll = r, critical = crit, matched = False,
           reroll = False, explode = False\<rparr>, st'))"

definition generateFateRoll :: "DiceRoller \<Rightarrow> nat \<Rightarrow> RollerState \<Rightarrow> DieRollBase \<times> RollerState" where
  "generateFateRoll cfg ord st =
     (let (x, st') = nextRandom cfg st;
          r = real_of_int (\<lfloor>x * 3\<rfloor>) - 1
      in (\<lparr>value = r, valid = True, success = None, successes = 0, failures = 0,
           order = ord, label = None, drop_flag = False,
           type = ''fateroll'', die = None, roll = r, critical = None, matched = False,
           reroll = False, explode = False\<rparr>, st'))"

text \<open>
  \<^verbatim>\<open>reRoll\<close>. A trial of type \<^verbatim>\<open>"roll"\<close> without \<open>die\<close> would be rolled against
  \<^verbatim>\<open>undefined\<close>, giving \<^verbatim>\<open>NaN\<close>.
\<close>

definition reRoll :: "DiceRoller \<Rightarrow> DieRollBase \<Rightarrow> nat \<Rightarrow> DieRollBase Step" where
  "reRoll cfg r ord st =
     (if type r = ''roll'' then
        (case die r of
           Some d \<Rightarrow> (let (n, st') = generateDiceRoll cfg d ord st in (Inr n, st'))
         | None \<Rightarrow> (Inl OutsideExactArithmetic, st))
      else if type r = ''fateroll'' then
        (let (n, st') = generateFateRoll cfg ord st in (Inr n, st'))
      else (Inl (CannotReroll (type r)), st))"

section \<open>The modifier pipeline\<close>

text \<open>
  Each \<^verbatim>\<open>get...Method\<close> of the source first evaluates the expression of the modifier
  and then returns a function on the sequence of entries. The definitions of this
  section are those functions, with the value of the expression as an argument; the
  dispatchers further down evaluate the expression and call them.

  \<^verbatim>\<open>Array.prototype.sort\<close> with a comparator \<^verbatim>\<open>(a, b) => key(a) - key(b)\<close> is a stable
  sort by \<open>key\<close> (stability is part of the language since ES2019), which is what
  \<^const>\<open>sort_key\<close> computes; \<^verbatim>\<open>key(b) - key(a)\<close> is the stable sort by the negated key.
\<close>

subsection \<open>Success, failure, critical success, critical failure\<close>

text \<open>
  The methods typed \<^verbatim>\<open>T extends RollBase\<close> run on trials (with the raw face as
  \<open>lookup\<close>) and on the entries of a group (with the value as \<open>lookup\<close>). They take
  the access to the \<^verbatim>\<open>RollBase\<close> fields of \<open>T\<close> as the two functions \<open>get\<close> and
  \<open>put\<close>.
\<close>

definition getSuccessMethod ::
  "('a \<Rightarrow> RollFields) \<Rightarrow> (RollFields \<Rightarrow> 'a \<Rightarrow> 'a) \<Rightarrow> string \<Rightarrow> real \<Rightarrow> ('a \<Rightarrow> real) \<Rightarrow> 'a list \<Rightarrow> 'a list" where
  "getSuccessMethod get put cmp target lookup rolls =
     map (\<lambda>r. if \<not> valid (get r) then r
              else if successTest cmp target (lookup r)
                then put ((get r)\<lparr>successes := successes (get r) + 1\<rparr>) r
              else r) rolls"

definition getFailureMethod ::
  "('a \<Rightarrow> RollFields) \<Rightarrow> (RollFields \<Rightarrow> 'a \<Rightarrow> 'a) \<Rightarrow> string \<Rightarrow> real \<Rightarrow> ('a \<Rightarrow> real) \<Rightarrow> 'a list \<Rightarrow> 'a list" where
  "getFailureMethod get put cmp target lookup rolls =
     map (\<lambda>r. if \<not> valid (get r) then r
              else if successTest cmp target (lookup r)
                then put ((get r)\<lparr>failures := failures (get r) + 1\<rparr>) r
              else r) rolls"

definition getCritSuccessMethod ::
  "string \<Rightarrow> real \<Rightarrow> (DieRollBase \<Rightarrow> real) \<Rightarrow> DieRollBase list \<Rightarrow> DieRollBase list" where
  "getCritSuccessMethod cmp target lookup rolls =
     map (\<lambda>r. if \<not> valid r then r
              else if type r \<noteq> ''roll'' then r
              else if success r = Some True then r
              else if successTest cmp target (lookup r) then r\<lparr>critical := Some ''success''\<rparr>
              else if critical r = Some ''success'' then r\<lparr>critical := None\<rparr>
              else r) rolls"

definition getCritFailureMethod ::
  "string \<Rightarrow> real \<Rightarrow> (DieRollBase \<Rightarrow> real) \<Rightarrow> DieRollBase list \<Rightarrow> DieRollBase list" where
  "getCritFailureMethod cmp target lookup rolls =
     map (\<lambda>r. if \<not> valid r then r
              else if type r \<noteq> ''roll'' then r
              else if success r = Some True then r
              else if successTest cmp target (lookup r) then r\<lparr>critical := Some ''failure''\<rparr>
              else if critical r = Some ''failure'' then r\<lparr>critical := None\<rparr>
              else r) rolls"

subsection \<open>Keep and drop\<close>

text \<open>
  The \<^verbatim>\<open>while (i < rolls.length && dropped < toDrop)\<close> loop that keep and drop share:
  it walks the sorted array once from the front, \<open>dropped\<close> counting the entries it
  has marked.
\<close>

fun markDropped ::
  "('a \<Rightarrow> RollFields) \<Rightarrow> (RollFields \<Rightarrow> 'a \<Rightarrow> 'a) \<Rightarrow> real \<Rightarrow> nat \<Rightarrow> 'a list \<Rightarrow> 'a list" where
  "markDropped get put toDrop dropped [] = []"
| "markDropped get put toDrop dropped (r # rs) =
     (if real dropped < toDrop then
        (if valid (get r)
         then put ((get r)\<lparr>valid := False, drop_flag := True\<rparr>) r
                # markDropped get put toDrop (dropped + 1) rs
         else r # markDropped get put toDrop dropped rs)
      else r # rs)"

definition getKeepMethod ::
  "('a \<Rightarrow> RollFields) \<Rightarrow> (RollFields \<Rightarrow> 'a \<Rightarrow> 'a) \<Rightarrow> string \<Rightarrow> real \<Rightarrow> ('a \<Rightarrow> real) \<Rightarrow> 'a list \<Rightarrow> 'a list" where
  "getKeepMethod get put highlow k lookup rolls =
     (if length rolls = 0 then rolls
      else
        let byLookup = (if highlow = ''l'' then sort_key (\<lambda>r. - lookup r) rolls
                        else sort_key lookup rolls);
            sorted = sort_key (\<lambda>r. if valid (get r) then 1 else (0::nat)) byLookup;
            toKeep = max (min k (real (length sorted))) 0;
            toDrop = real (length (filter (\<lambda>r. valid (get r)) sorted)) - toKeep
        in markDropped get put toDrop 0 sorted)"

definition getDropMethod ::
  "('a \<Rightarrow> RollFields) \<Rightarrow> (RollFields \<Rightarrow> 'a \<Rightarrow> 'a) \<Rightarrow> string \<Rightarrow> real \<Rightarrow> ('a \<Rightarrow> real) \<Rightarrow> 'a list \<Rightarrow> 'a list" where
  "getDropMethod get put highlow k lookup rolls =
     (let sorted = (if highlow = ''h'' then sort_key (\<lambda>r. - lookup r) rolls
                    else sort_key lookup rolls);
          toDrop = max (min k (real (length sorted))) 0
      in markDropped get put toDrop 0 sorted)"

text \<open>
  \<^verbatim>\<open>.sort((a, b) => a.order - b.order)\<close>, which \<^verbatim>\<open>getModMethod\<close> applies to what keep
  and drop return on the trials of a die.
\<close>

definition sortByOrder :: "DieRollBase list \<Rightarrow> DieRollBase list" where
  "sortByOrder rolls = sort_key order rolls"

subsection \<open>Sort\<close>

definition applySort :: "DieRollBase list \<Rightarrow> bool \<Rightarrow> DieRollBase list" where
  "applySort rolls asc =
     (let sorted = (if asc then sort_key roll rolls else sort_key (\<lambda>r. - roll r) rolls)
      in map (\<lambda>(i, r). r\<lparr>order := i\<rparr>) (enumerate 0 sorted))"

subsection \<open>Targets of explode, compound and penetrate\<close>

text \<open>
  \<open>targetMethod\<close> with the resolved target \<open>tv\<close>: the comparator and the value of
  \<^verbatim>\<open>mod.target\<close>, or \<open>None\<close> when the modifier has no target. Without a target the
  face is compared with \<^verbatim>\<open>roll.die\<close> (1 for a fate trial); if \<^verbatim>\<open>roll.die\<close> is absent the
  comparison \<^verbatim>\<open>roll.roll == undefined\<close> is false.
\<close>

fun targetMethod :: "(string \<times> real) option \<Rightarrow> DieRollBase \<Rightarrow> bool" where
  "targetMethod (Some (cmp, t)) r = successTest cmp t (roll r)"
| "targetMethod None r =
     (case (if type r = ''fateroll'' then Some 1 else die r) of
        None \<Rightarrow> False
      | Some t \<Rightarrow> successTest ''='' t (roll r))"

text \<open>The object literal \<^verbatim>\<open>{ roll: x } as DieRollBase\<close>: every other field is absent.\<close>

definition probe :: "real \<Rightarrow> DieRollBase" where
  "probe x = \<lparr>value = 0, valid = False, success = None, successes = 0, failures = 0,
       order = 0, label = None, drop_flag = False,
       type = [], die = None, roll = x, critical = None, matched = False,
       reroll = False, explode = False\<rparr>"

text \<open>
  The test before the loop of explode and of compound (the same text in both):
  \<open>Inr True\<close> when it throws \<^verbatim>\<open>Invalid reroll target\<close>. Reading \<^verbatim>\<open>rolls[0].type\<close> of an
  empty array is a \<^verbatim>\<open>TypeError\<close>.
\<close>

definition explodeGuard :: "(string \<times> real) option \<Rightarrow> DieRollBase list \<Rightarrow> error + bool" where
  "explodeGuard tv rolls =
     (case rolls of
        [] \<Rightarrow> Inl TypeError
      | r0 # _ \<Rightarrow> Inr (type r0 = ''roll'' \<and> targetMethod tv (probe 1) \<and>
                        (case die r0 of None \<Rightarrow> False | Some d \<Rightarrow> targetMethod tv (probe d))))"

text \<open>The test of penetrate starts with \<^verbatim>\<open>targetValue &&\<close> and reads the first trial itself.\<close>

definition penetrateGuard :: "(string \<times> real) option \<Rightarrow> DieRollBase list \<Rightarrow> error + bool" where
  "penetrateGuard tv rolls =
     (case tv of
        None \<Rightarrow> Inr False
      | Some (cmp, t) \<Rightarrow>
          (case rolls of
             [] \<Rightarrow> Inl TypeError
           | r0 # _ \<Rightarrow> Inr (type r0 = ''roll'' \<and> targetMethod tv r0 \<and> successTest cmp t 1)))"

text \<open>\<^verbatim>\<open>rolls.splice(i, 0, x)\<close>.\<close>

definition spliceInsert :: "'a list \<Rightarrow> nat \<Rightarrow> 'a \<Rightarrow> 'a list" where
  "spliceInsert xs i x = take i xs @ x # List.drop i xs"

subsection \<open>Explode\<close>

text \<open>
  The \<^verbatim>\<open>while\<close> loop of explode. The variable \<^verbatim>\<open>roll\<close> of the source always refers to
  the element \<^verbatim>\<open>rolls[i]\<close>: at first by the assignment, afterwards because the new trial
  is spliced in at the incremented \<open>i\<close>. \<^verbatim>\<open>explodeCount++ < 1000\<close> compares the count
  before the increment.
\<close>

function explodeWhile ::
  "DiceRoller \<Rightarrow> (string \<times> real) option \<Rightarrow> nat \<Rightarrow> nat \<Rightarrow> DieRollBase list \<Rightarrow> (nat \<times> DieRollBase list) Step" where
  "explodeWhile cfg tv explodeCount i rolls st =
     (if targetMethod tv (rolls ! i) \<and> explodeCount < 1000 then
        (let rolls1 = rolls[i := (rolls ! i)\<lparr>explode := True\<rparr>] in
         case reRoll cfg (rolls1 ! i) (i + 1) st of
           (Inl e, st') \<Rightarrow> (Inl e, st')
         | (Inr newRoll, st') \<Rightarrow>
             explodeWhile cfg tv (explodeCount + 1) (i + 1) (spliceInsert rolls1 (i + 1) newRoll) st')
      else (Inr (i, rolls), st))"
  by pat_completeness auto
termination
  by (relation "measure (\<lambda>(cfg, tv, explodeCount, i, rolls, st). 1000 - explodeCount)") auto

declare explodeWhile.simps [simp del]

text \<open>The \<^verbatim>\<open>for\<close> loop of explode; \<^verbatim>\<open>i\<close> comes back from the inner loop advanced.\<close>

function explodeFor ::
  "DiceRoller \<Rightarrow> (string \<times> real) option \<Rightarrow> nat \<Rightarrow> DieRollBase list \<Rightarrow> DieRollBase list Step" where
  "explodeFor cfg tv i rolls st =
     (if i < length rolls then
        (case explodeWhile cfg tv 0 i (rolls[i := (rolls ! i)\<lparr>order := i\<rparr>]) st of
           (Inl e, st') \<Rightarrow> (Inl e, st')
         | (Inr (i', rolls'), st') \<Rightarrow> explodeFor cfg tv (i' + 1) rolls' st')
      else (Inr rolls, st))"
  by pat_completeness auto
termination
proof -
  have len: "explodeWhile cfg tv c i rolls st = (Inr (i', rolls'), st') \<Longrightarrow> i < length rolls \<Longrightarrow>
      length rolls' - i' = length rolls - i \<and> i' < length rolls'"
    for cfg tv c i rolls st i' rolls' st'
  proof (induction cfg tv c i rolls st rule: explodeWhile.induct)
    case (1 cfg tv explodeCount i rolls st)
    show ?case
    proof (cases "targetMethod tv (rolls ! i) \<and> explodeCount < 1000")
      case False
      with "1.prems" show ?thesis by (subst (asm) explodeWhile.simps) simp
    next
      case True
      let ?rolls1 = "rolls[i := (rolls ! i)\<lparr>explode := True\<rparr>]"
      obtain res st1 where rr: "reRoll cfg (?rolls1 ! i) (i + 1) st = (res, st1)"
        by (cases "reRoll cfg (?rolls1 ! i) (i + 1) st")
      show ?thesis
      proof (cases res)
        case (Inl e)
        with True rr "1.prems" show ?thesis
          by (subst (asm) explodeWhile.simps) (simp add: Let_def)
      next
        case (Inr newRoll)
        with True rr "1.prems"(1)
        have rec: "explodeWhile cfg tv (explodeCount + 1) (i + 1) (spliceInsert ?rolls1 (i + 1) newRoll) st1
                = (Inr (i', rolls'), st')"
          by (subst (asm) explodeWhile.simps) (simp add: Let_def)
        have "i + 1 < length (spliceInsert ?rolls1 (i + 1) newRoll)"
          using "1.prems"(2) by (simp add: spliceInsert_def)
        from "1.IH"[OF True refl rr[symmetric] Inr rec this] "1.prems"(2)
        show ?thesis by (simp add: spliceInsert_def)
      qed
    qed
  qed
  show ?thesis
    by (relation "measure (\<lambda>(cfg, tv, i, rolls, st). length rolls - i)")
       (auto dest!: len[OF sym])
qed

declare explodeFor.simps [simp del]

definition getExplodeMethod ::
  "DiceRoller \<Rightarrow> (string \<times> real) option \<Rightarrow> DieRollBase list \<Rightarrow> DieRollBase list Step" where
  "getExplodeMethod cfg tv rolls st =
     (case explodeGuard tv rolls of
        Inl e \<Rightarrow> (Inl e, st)
      | Inr True \<Rightarrow> (Inl InvalidRerollTarget, st)
      | Inr False \<Rightarrow> explodeFor cfg tv 0 rolls st)"

subsection \<open>Compound\<close>

text \<open>
  In the loop of compound the variable \<^verbatim>\<open>roll\<close> refers to \<^verbatim>\<open>rolls[i]\<close> in the first
  iteration only (\<open>cur = None\<close>), then to the trial generated last (\<open>cur = Some n\<close>),
  which is in no array: \<^verbatim>\<open>roll.explode = true\<close> reaches the array element the first time
  only.
\<close>

function compoundWhile ::
  "DiceRoller \<Rightarrow> (string \<times> real) option \<Rightarrow> nat \<Rightarrow> DieRollBase list \<Rightarrow> DieRollBase option \<Rightarrow> real \<Rightarrow> nat
     \<Rightarrow> (DieRollBase list \<times> real) Step" where
  "compoundWhile cfg tv i rolls cur rollValue explodeCount st =
     (let r = (case cur of None \<Rightarrow> rolls ! i | Some n \<Rightarrow> n) in
      if targetMethod tv r \<and> explodeCount < 1000 then
        (let rolls1 = (case cur of None \<Rightarrow> rolls[i := r\<lparr>explode := True\<rparr>] | Some n \<Rightarrow> rolls) in
         case reRoll cfg (r\<lparr>explode := True\<rparr>) (i + 1) st of
           (Inl e, st') \<Rightarrow> (Inl e, st')
         | (Inr newRoll, st') \<Rightarrow>
             compoundWhile cfg tv i rolls1 (Some newRoll) (rollValue + roll newRoll) (explodeCount + 1) st')
      else (Inr (rolls, rollValue), st))"
  by pat_completeness auto
termination
  by (relation "measure (\<lambda>(cfg, tv, i, rolls, cur, rollValue, explodeCount, st). 1000 - explodeCount)") auto

declare compoundWhile.simps [simp del]

function compoundFor ::
  "DiceRoller \<Rightarrow> (string \<times> real) option \<Rightarrow> nat \<Rightarrow> DieRollBase list \<Rightarrow> DieRollBase list Step" where
  "compoundFor cfg tv i rolls st =
     (if i < length rolls then
        (case compoundWhile cfg tv i rolls None (roll (rolls ! i)) 0 st of
           (Inl e, st') \<Rightarrow> (Inl e, st')
         | (Inr (rolls', rollValue), st') \<Rightarrow>
             compoundFor cfg tv (i + 1)
               (rolls'[i := (rolls' ! i)\<lparr>value := rollValue, roll := rollValue\<rparr>]) st')
      else (Inr rolls, st))"
  by pat_completeness auto
termination
proof -
  have len: "compoundWhile cfg tv i rolls cur v c st = (Inr (rolls', v'), st') \<Longrightarrow>
      length rolls' = length rolls"
    for cfg tv i rolls cur v c st rolls' v' st'
  proof (induction cfg tv i rolls cur v c st rule: compoundWhile.induct)
    case (1 cfg tv i rolls cur rollValue explodeCount st)
    then show ?case
      by (subst (asm) (2) compoundWhile.simps)
         (auto simp: Let_def split: if_splits prod.splits sum.splits option.splits)
  qed
  show ?thesis
    by (relation "measure (\<lambda>(cfg, tv, i, rolls, st). length rolls - i)")
       (auto dest!: len[OF sym])
qed

declare compoundFor.simps [simp del]

definition getCompoundMethod ::
  "DiceRoller \<Rightarrow> (string \<times> real) option \<Rightarrow> DieRollBase list \<Rightarrow> DieRollBase list Step" where
  "getCompoundMethod cfg tv rolls st =
     (case explodeGuard tv rolls of
        Inl e \<Rightarrow> (Inl e, st)
      | Inr True \<Rightarrow> (Inl InvalidRerollTarget, st)
      | Inr False \<Rightarrow> compoundFor cfg tv 0 rolls st)"

subsection \<open>Penetrate\<close>

text \<open>The loops of explode again, with \<^verbatim>\<open>newRoll.value -= 1\<close> before the splice.\<close>

function penetrateWhile ::
  "DiceRoller \<Rightarrow> (string \<times> real) option \<Rightarrow> nat \<Rightarrow> nat \<Rightarrow> DieRollBase list \<Rightarrow> (nat \<times> DieRollBase list) Step" where
  "penetrateWhile cfg tv explodeCount i rolls st =
     (if targetMethod tv (rolls ! i) \<and> explodeCount < 1000 then
        (let rolls1 = rolls[i := (rolls ! i)\<lparr>explode := True\<rparr>] in
         case reRoll cfg (rolls1 ! i) (i + 1) st of
           (Inl e, st') \<Rightarrow> (Inl e, st')
         | (Inr newRoll, st') \<Rightarrow>
             penetrateWhile cfg tv (explodeCount + 1) (i + 1)
               (spliceInsert rolls1 (i + 1) (newRoll\<lparr>value := value newRoll - 1\<rparr>)) st')
      else (Inr (i, rolls), st))"
  by pat_completeness auto
termination
  by (relation "measure (\<lambda>(cfg, tv, explodeCount, i, rolls, st). 1000 - explodeCount)") auto

declare penetrateWhile.simps [simp del]

function penetrateFor ::
  "DiceRoller \<Rightarrow> (string \<times> real) option \<Rightarrow> nat \<Rightarrow> DieRollBase list \<Rightarrow> DieRollBase list Step" where
  "penetrateFor cfg tv i rolls st =
     (if i < length rolls then
        (case penetrateWhile cfg tv 0 i (rolls[i := (rolls ! i)\<lparr>order := i\<rparr>]) st of
           (Inl e, st') \<Rightarrow> (Inl e, st')
         | (Inr (i', rolls'), st') \<Rightarrow> penetrateFor cfg tv (i' + 1) rolls' st')
      else (Inr rolls, st))"
  by pat_completeness auto
termination
proof -
  have len: "penetrateWhile cfg tv c i rolls st = (Inr (i', rolls'), st') \<Longrightarrow> i < length rolls \<Longrightarrow>
      length rolls' - i' = length rolls - i \<and> i' < length rolls'"
    for cfg tv c i rolls st i' rolls' st'
  proof (induction cfg tv c i rolls st rule: penetrateWhile.induct)
    case (1 cfg tv explodeCount i rolls st)
    show ?case
    proof (cases "targetMethod tv (rolls ! i) \<and> explodeCount < 1000")
      case False
      with "1.prems" show ?thesis by (subst (asm) penetrateWhile.simps) simp
    next
      case True
      let ?rolls1 = "rolls[i := (rolls ! i)\<lparr>explode := True\<rparr>]"
      obtain res st1 where rr: "reRoll cfg (?rolls1 ! i) (i + 1) st = (res, st1)"
        by (cases "reRoll cfg (?rolls1 ! i) (i + 1) st")
      show ?thesis
      proof (cases res)
        case (Inl e)
        with True rr "1.prems" show ?thesis
          by (subst (asm) penetrateWhile.simps) (simp add: Let_def)
      next
        case (Inr newRoll)
        with True rr "1.prems"(1)
        have rec: "penetrateWhile cfg tv (explodeCount + 1) (i + 1)
                  (spliceInsert ?rolls1 (i + 1) (newRoll\<lparr>value := value newRoll - 1\<rparr>)) st1
                = (Inr (i', rolls'), st')"
          by (subst (asm) penetrateWhile.simps) (simp add: Let_def)
        have "i + 1 < length (spliceInsert ?rolls1 (i + 1) (newRoll\<lparr>value := value newRoll - 1\<rparr>))"
          using "1.prems"(2) by (simp add: spliceInsert_def)
        from "1.IH"[OF True refl rr[symmetric] Inr rec this] "1.prems"(2)
        show ?thesis by (simp add: spliceInsert_def)
      qed
    qed
  qed
  show ?thesis
    by (relation "measure (\<lambda>(cfg, tv, i, rolls, st). length rolls - i)")
       (auto dest!: len[OF sym])
qed

declare penetrateFor.simps [simp del]

definition getPenetrateMethod ::
  "DiceRoller \<Rightarrow> (string \<times> real) option \<Rightarrow> DieRollBase list \<Rightarrow> DieRollBase list Step" where
  "getPenetrateMethod cfg tv rolls st =
     (case penetrateGuard tv rolls of
        Inl e \<Rightarrow> (Inl e, st)
      | Inr True \<Rightarrow> (Inl InvalidRerollTarget, st)
      | Inr False \<Rightarrow> penetrateFor cfg tv 0 rolls st)"

subsection \<open>Reroll and reroll once\<close>

text \<open>
  Here \<open>targetMethod\<close> is \<^verbatim>\<open>successTest\<close> bound to the comparator and the value of the
  target, or to \<^verbatim>\<open>"="\<close> and 1 without a target, and it is applied to faces.
\<close>

definition rerollTarget :: "(string \<times> real) option \<Rightarrow> real \<Rightarrow> bool" where
  "rerollTarget tv x = (case tv of Some (cmp, t) \<Rightarrow> successTest cmp t x | None \<Rightarrow> successTest ''='' 1 x)"

definition reRollGuard :: "(string \<times> real) option \<Rightarrow> DieRollBase list \<Rightarrow> error + bool" where
  "reRollGuard tv rolls =
     (case rolls of
        [] \<Rightarrow> Inl TypeError
      | r0 # _ \<Rightarrow> Inr (type r0 = ''roll'' \<and> rerollTarget tv 1 \<and>
                        (case die r0 of None \<Rightarrow> False | Some d \<Rightarrow> rerollTarget tv d)))"

text \<open>
  The \<^verbatim>\<open>while\<close> loop of the plain reroll has no counter: it ends when a replacement
  does not match, and otherwise does not end.
\<close>

partial_function (option) reRollWhile ::
  "DiceRoller \<Rightarrow> (string \<times> real) option \<Rightarrow> nat \<Rightarrow> DieRollBase list \<Rightarrow> RollerState
     \<Rightarrow> ((error + nat \<times> DieRollBase list) \<times> RollerState) option" where
  "reRollWhile cfg tv i rolls st =
     (if rerollTarget tv (roll (rolls ! i)) then
        (let rolls1 = rolls[i := (rolls ! i)\<lparr>reroll := True, valid := False\<rparr>] in
         case reRoll cfg (rolls1 ! i) (i + 1) st of
           (Inl e, st') \<Rightarrow> Some (Inl e, st')
         | (Inr newRoll, st') \<Rightarrow> reRollWhile cfg tv (i + 1) (spliceInsert rolls1 (i + 1) newRoll) st')
      else Some (Inr (i, rolls), st))"

function reRollOnceFor ::
  "DiceRoller \<Rightarrow> (string \<times> real) option \<Rightarrow> nat \<Rightarrow> DieRollBase list \<Rightarrow> DieRollBase list Step" where
  "reRollOnceFor cfg tv i rolls st =
     (if i < length rolls then
        (if rerollTarget tv (roll (rolls ! i)) then
           (let rolls1 = rolls[i := (rolls ! i)\<lparr>reroll := True, valid := False\<rparr>] in
            case reRoll cfg (rolls1 ! i) (i + 1) st of
              (Inl e, st') \<Rightarrow> (Inl e, st')
            | (Inr newRoll, st') \<Rightarrow> reRollOnceFor cfg tv (i + 2) (spliceInsert rolls1 (i + 1) newRoll) st')
         else reRollOnceFor cfg tv (i + 1) rolls st)
      else (Inr rolls, st))"
  by pat_completeness auto
termination
  by (relation "measure (\<lambda>(cfg, tv, i, rolls, st). length rolls - i)")
     (auto simp: spliceInsert_def)

declare reRollOnceFor.simps [simp del]

function reRollFor ::
  "DiceRoller \<Rightarrow> (string \<times> real) option \<Rightarrow> nat \<Rightarrow> DieRollBase list \<Rightarrow> DieRollBase list Eval" where
  "reRollFor cfg tv i rolls st =
     (if i < length rolls then
        (case reRollWhile cfg tv i rolls st of
           None \<Rightarrow> None
         | Some (Inl e, st') \<Rightarrow> Some (Inl e, st')
         | Some (Inr (i', rolls'), st') \<Rightarrow> reRollFor cfg tv (i' + 1) rolls' st')
      else Some (Inr rolls, st))"
  by pat_completeness auto
termination
proof -
  have aux: "reRollWhile cfg tv i rolls st = Some y \<Longrightarrow>
      (\<forall>i' rolls' st'. y = (Inr (i', rolls'), st') \<longrightarrow> i < length rolls \<longrightarrow>
         length rolls' - i' = length rolls - i \<and> i' < length rolls')"
    for cfg tv i rolls st y
  proof (induction cfg tv i rolls st y rule: reRollWhile.raw_induct[rotated 1, consumes 1, case_names step])
    case (step rec cfg tv i rolls st y)
    show ?case
    proof (intro allI impI)
      fix i' rolls' st'
      assume y: "y = (Inr (i', rolls'), st')" and i: "i < length rolls"
      show "length rolls' - i' = length rolls - i \<and> i' < length rolls'"
      proof (cases "rerollTarget tv (roll (rolls ! i))")
        case False
        with step.hyps y i show ?thesis by simp
      next
        case True
        let ?rolls1 = "rolls[i := (rolls ! i)\<lparr>reroll := True, valid := False\<rparr>]"
        obtain res st1 where rr: "reRoll cfg (?rolls1 ! i) (i + 1) st = (res, st1)"
          by (cases "reRoll cfg (?rolls1 ! i) (i + 1) st")
        show ?thesis
        proof (cases res)
          case (Inl e)
          with True rr step.hyps y show ?thesis by (simp add: Let_def)
        next
          case (Inr newRoll)
          with True rr step.hyps y
          have "rec cfg tv (i + 1) (spliceInsert ?rolls1 (i + 1) newRoll) st1 = Some (Inr (i', rolls'), st')"
            by (simp add: Let_def)
          from step.IH[OF this] i show ?thesis
            by (simp add: spliceInsert_def)
        qed
      qed
    qed
  qed
  have len: "reRollWhile cfg tv i rolls st = Some (Inr (i', rolls'), st') \<Longrightarrow> i < length rolls \<Longrightarrow>
      length rolls' - i' = length rolls - i \<and> i' < length rolls'"
    for cfg tv i rolls st i' rolls' st'
    using aux by blast
  show ?thesis
    by (relation "measure (\<lambda>(cfg, tv, i, rolls, st). length rolls - i)")
       (auto dest!: len)
qed

definition getReRollMethod ::
  "DiceRoller \<Rightarrow> (string \<times> real) option \<Rightarrow> DieRollBase list \<Rightarrow> DieRollBase list Eval" where
  "getReRollMethod cfg tv rolls st =
     (case reRollGuard tv rolls of
        Inl e \<Rightarrow> Some (Inl e, st)
      | Inr True \<Rightarrow> Some (Inl InvalidRerollTarget, st)
      | Inr False \<Rightarrow> reRollFor cfg tv 0 rolls st)"

definition getReRollOnceMethod ::
  "DiceRoller \<Rightarrow> (string \<times> real) option \<Rightarrow> DieRollBase list \<Rightarrow> DieRollBase list Step" where
  "getReRollOnceMethod cfg tv rolls st =
     (case reRollGuard tv rolls of
        Inl e \<Rightarrow> (Inl e, st)
      | Inr True \<Rightarrow> (Inl InvalidRerollTarget, st)
      | Inr False \<Rightarrow> reRollOnceFor cfg tv 0 rolls st)"

declare reRollFor.simps [simp del]

declare reRollWhile.simps [code]

section \<open>The node evaluator\<close>

text \<open>
  Every method of the class is \<^verbatim>\<open>async\<close>, and each call is awaited where it is made, so
  the methods run as sequential code; \<^verbatim>\<open>async_reduce\<close> and \<^verbatim>\<open>async_filter\<close> are the
  loops from left to right that they look like. The one exception is \<^verbatim>\<open>async_map\<close>,
  called for the members of a group: the members run interleaved, each on the numbers
  that the \<open>schedule\<close> of the roller hands to it.
\<close>

subsection \<open>Pieces of the node methods\<close>

text \<open>The fields that most result objects are created with.\<close>

definition plain :: "real \<Rightarrow> RollFields" where
  "plain v = \<lparr>value = v, valid = True, success = None, successes = 0, failures = 0,
      order = 0, label = None, drop_flag = False\<rparr>"

text \<open>\<^verbatim>\<open>if (input.label) { response.label = input.label; }\<close>: the empty string is falsy.\<close>

definition copyLabel :: "string option \<Rightarrow> RollBase \<Rightarrow> RollBase" where
  "copyLabel l response =
     (case l of
        None \<Rightarrow> response
      | Some s \<Rightarrow> if s = [] then response
                  else putFields ((getFields response)\<lparr>label := Some s\<rparr>) response)"

definition withLabel :: "string option \<Rightarrow> RollBase Eval \<Rightarrow> RollBase Eval" where
  "withLabel l m = andThen m (\<lambda>response. ret (copyLabel l response))"

text \<open>\<^verbatim>\<open>.reduce((sum, roll) => (!roll.valid ? sum : sum + roll.value), 0)\<close>.\<close>

definition sumValid :: "RollFields list \<Rightarrow> real" where
  "sumValid fs = foldl (\<lambda>sum f. if valid f then sum + value f else sum) 0 fs"

text \<open>
  The operators of \<^verbatim>\<open>rollExpression\<close>. \<^verbatim>\<open>%\<close> takes the sign of the dividend. A division
  by zero and a power that is not a rational number leave exact arithmetic.
\<close>

definition truncate :: "real \<Rightarrow> real" where
  "truncate x = (if x < 0 then of_int \<lceil>x\<rceil> else of_int \<lfloor>x\<rfloor>)"

definition mathOp :: "string \<Rightarrow> real \<Rightarrow> real \<Rightarrow> error + real" where
  "mathOp opn a b =
     (if opn = ''+'' then Inr (a + b)
      else if opn = ''-'' then Inr (a - b)
      else if opn = ''*'' then Inr (a * b)
      else if opn = ''/'' then (if b = 0 then Inl OutsideExactArithmetic else Inr (a / b))
      else if opn = ''%'' then
        (if b = 0 then Inl OutsideExactArithmetic else Inr (a - b * truncate (a / b)))
      else if opn = ''**'' then
        (if of_int \<lfloor>b\<rfloor> \<noteq> b then Inl OutsideExactArithmetic
         else if b \<ge> 0 then Inr (a ^ nat \<lfloor>b\<rfloor>)
         else if a = 0 then Inl OutsideExactArithmetic
         else Inr (1 / a ^ nat (- \<lfloor>b\<rfloor>)))
      else Inr a)"

text \<open>The \<^verbatim>\<open>switch\<close> of \<^verbatim>\<open>rollFunction\<close>; \<^verbatim>\<open>Math.round\<close> rounds a tie upwards.\<close>

definition mathFunction :: "string \<Rightarrow> real \<Rightarrow> real" where
  "mathFunction opn x =
     (if opn = ''floor'' then of_int \<lfloor>x\<rfloor>
      else if opn = ''ceil'' then of_int \<lceil>x\<rceil>
      else if opn = ''round'' then of_int \<lfloor>x + 1 / 2\<rfloor>
      else if opn = ''abs'' then \<bar>x\<bar>
      else x)"

text \<open>
  \<^verbatim>\<open>Array.from({ length: x }, (_, i) => f(i))\<close>: the length is \<open>x\<close> truncated, 0 when
  \<open>x\<close> is negative, and \<open>f\<close> is called for \<open>i = 0, 1, ...\<close> in turn.
\<close>

fun arrayFrom :: "nat \<Rightarrow> nat \<Rightarrow> (nat \<Rightarrow> RollerState \<Rightarrow> 'a \<times> RollerState) \<Rightarrow> RollerState \<Rightarrow> 'a list \<times> RollerState" where
  "arrayFrom 0 i f st = ([], st)"
| "arrayFrom (Suc n) i f st =
     (let (x, st1) = f i st; (xs, st2) = arrayFrom n (Suc i) f st1 in (x # xs, st2))"

definition generateRolls :: "real \<Rightarrow> (nat \<Rightarrow> RollerState \<Rightarrow> DieRollBase \<times> RollerState) \<Rightarrow> DieRollBase list Eval" where
  "generateRolls x f = (\<lambda>st. let (rolls, st') = arrayFrom (nat \<lfloor>x\<rfloor>) 0 f st in Some (Inr rolls, st'))"

text \<open>The \<^verbatim>\<open>type\<close> of a modifier, as the error message prints it.\<close>

fun modType :: "ParsedType \<Rightarrow> string" where
  "modType (Keep hl e) = ''keep''"
| "modType (Drop hl e) = ''drop''"
| "modType (Success cmp e) = ''success''"
| "modType (Failure cmp e) = ''failure''"
| "modType (Crit cmp e) = ''crit''"
| "modType (CritFail cmp e) = ''critfail''"
| "modType (Explode t) = ''explode''"
| "modType (Compound t) = ''compound''"
| "modType (Penetrate t) = ''penetrate''"
| "modType (ReRoll t) = ''reroll''"
| "modType (ReRollOnce t) = ''rerollOnce''"
| "modType (OtherMod s) = s"

paragraph \<open>rollDie\<close>

text \<open>The \<^verbatim>\<open>.map\<close> after the targets of a die.\<close>

definition applyTargets :: "DieRollBase list \<Rightarrow> DieRollBase list" where
  "applyTargets rolls =
     map (\<lambda>r. r\<lparr>value := real_of_int (successes r - failures r),
                success := Some (real_of_int (successes r - failures r) > 0)\<rparr>) rolls"

text \<open>
  The \<^verbatim>\<open>Map\<close> from face to number of trials; its entries are listed in the order in
  which the faces first occur.
\<close>

fun mapIncrement :: "real \<Rightarrow> (real \<times> nat) list \<Rightarrow> (real \<times> nat) list" where
  "mapIncrement v [] = [(v, 1)]"
| "mapIncrement v ((k, c) # kvs) = (if k = v then (k, c + 1) # kvs else (k, c) # mapIncrement v kvs)"

definition countFaces :: "DieRollBase list \<Rightarrow> (real \<times> nat) list" where
  "countFaces rolls = foldl (\<lambda>m r. mapIncrement (roll r) m) [] rolls"

definition markMatched :: "real list \<Rightarrow> DieRollBase list \<Rightarrow> DieRollBase list" where
  "markMatched matches rolls = map (\<lambda>r. if roll r \<in> set matches then r\<lparr>matched := True\<rparr> else r) rolls"

definition dieResult ::
  "RollBase \<Rightarrow> RollBase \<Rightarrow> DieRollBase list \<Rightarrow> int \<Rightarrow> int \<Rightarrow> bool \<Rightarrow> bool \<Rightarrow> nat \<Rightarrow> RollBase" where
  "dieResult countR dieR rolls succs fails hasTargets isMatched matchCount =
     (let v = sumValid (map trialFields rolls)
      in DiceRollResult
           \<lparr>value = (if isMatched then real matchCount else v), valid = True,
            success = (if hasTargets then Some (v > 0) else None),
            successes = succs, failures = fails, order = 0, label = None, drop_flag = False\<rparr>
           countR dieR rolls isMatched)"

paragraph \<open>rollGroup\<close>

text \<open>
  The entries the modifiers of a group run on. The source works on arrays of shared
  objects: a modifier changes fields of the entries, and keep and drop also sort the array
  they are given in place. In the model an entry carries its position in the array
  the modifiers started from, so that the changed entries can be put back where the
  result tree holds them.
\<close>

definition poolGet :: "nat \<times> RollBase \<Rightarrow> RollFields" where
  "poolGet e = getFields (snd e)"

definition poolPut :: "RollFields \<Rightarrow> nat \<times> RollBase \<Rightarrow> nat \<times> RollBase" where
  "poolPut f e = (fst e, putFields f (snd e))"

definition poolLookup :: "nat \<times> RollBase \<Rightarrow> real" where
  "poolLookup e = value (getFields (snd e))"

text \<open>
  \<^verbatim>\<open>.dice.filter((die) => die.type !== "number").reduce(...)\<close>: a die result gives its
  trials, any other child its \<^verbatim>\<open>dice\<close>; spreading the \<^verbatim>\<open>dice\<close> of a child that has
  none is a \<^verbatim>\<open>TypeError\<close>.
\<close>

fun flattenDice :: "RollBase list \<Rightarrow> error + RollBase list" where
  "flattenDice [] = Inr []"
| "flattenDice (NumberRoll f # cs) = flattenDice cs"
| "flattenDice (DiceRollResult f c d rs m # cs) =
     (case flattenDice cs of Inl e \<Rightarrow> Inl e | Inr arr \<Rightarrow> Inr (map DieRoll rs @ arr))"
| "flattenDice (DiceExpressionRoll f ds os # cs) =
     (case flattenDice cs of Inl e \<Rightarrow> Inl e | Inr arr \<Rightarrow> Inr (ds @ arr))"
| "flattenDice (ExpressionRoll f ds os # cs) =
     (case flattenDice cs of Inl e \<Rightarrow> Inl e | Inr arr \<Rightarrow> Inr (ds @ arr))"
| "flattenDice (GroupRoll f ds # cs) =
     (case flattenDice cs of Inl e \<Rightarrow> Inl e | Inr arr \<Rightarrow> Inr (ds @ arr))"
| "flattenDice (c # cs) = Inl TypeError"

fun flattenMember :: "RollBase \<Rightarrow> error + RollBase list" where
  "flattenMember (DiceRollResult f c d rs m) = Inr (map DieRoll rs)"
| "flattenMember (DiceExpressionRoll f ds os) = flattenDice ds"
| "flattenMember r = Inl TypeError"

definition hasTarget :: "ParsedType list \<Rightarrow> bool" where
  "hasTarget mods = list_ex (\<lambda>m. modType m = ''failure'' \<or> modType m = ''success'') mods"

text \<open>The \<^verbatim>\<open>.map\<close> at the end of \<^verbatim>\<open>applyGroupMods\<close>, with the two sums it accumulates.\<close>

definition groupTargets :: "bool \<Rightarrow> (nat \<times> RollBase) list \<Rightarrow> (nat \<times> RollBase) list \<times> int \<times> int" where
  "groupTargets targeted dice =
     (if targeted then
        (map (\<lambda>e. poolPut ((poolGet e)\<lparr>value := real_of_int (successes (poolGet e) - failures (poolGet e)),
                                        success := Some (real_of_int (successes (poolGet e) - failures (poolGet e)) > 0)\<rparr>) e) dice,
         sum_list (map (\<lambda>e. successes (poolGet e)) dice),
         sum_list (map (\<lambda>e. failures (poolGet e)) dice))
      else (dice, 0, 0))"

text \<open>
  Putting the entries back. \<open>final\<close> is the pool after the modifiers. The trials of
  a die member are the array the modifiers were given, so they come back in the order
  \<open>inPlace\<close> in which the in-place sorts left that array; the arrays of the children of
  a dice expression are not touched, only their entries are.
\<close>

definition trialAt :: "(nat \<times> RollBase) list \<Rightarrow> nat \<Rightarrow> DieRollBase option" where
  "trialAt final i = (case map_of final i of Some (DieRoll t) \<Rightarrow> Some t | _ \<Rightarrow> None)"

fun writeBackDice :: "(nat \<times> RollBase) list \<Rightarrow> nat \<Rightarrow> RollBase list \<Rightarrow> RollBase list" where
  "writeBackDice final k [] = []"
| "writeBackDice final k (DiceRollResult f c d rs m # cs) =
     DiceRollResult f c d (List.map_filter (trialAt final) [k ..< k + length rs]) m
       # writeBackDice final (k + length rs) cs"
| "writeBackDice final k (DiceExpressionRoll f ds os # cs) =
     DiceExpressionRoll f (List.map_filter (map_of final) [k ..< k + length ds]) os
       # writeBackDice final (k + length ds) cs"
| "writeBackDice final k (ExpressionRoll f ds os # cs) =
     ExpressionRoll f (List.map_filter (map_of final) [k ..< k + length ds]) os
       # writeBackDice final (k + length ds) cs"
| "writeBackDice final k (GroupRoll f ds # cs) =
     GroupRoll f (List.map_filter (map_of final) [k ..< k + length ds])
       # writeBackDice final (k + length ds) cs"
| "writeBackDice final k (c # cs) = c # writeBackDice final k cs"

fun writeBack :: "RollBase \<Rightarrow> (nat \<times> RollBase) list \<Rightarrow> nat list \<Rightarrow> RollBase" where
  "writeBack (DiceRollResult f c d rs m) final inPlace =
     DiceRollResult f c d (List.map_filter (trialAt final) inPlace) m"
| "writeBack (DiceExpressionRoll f ds os) final inPlace =
     DiceExpressionRoll f (writeBackDice final 0 ds) os"
| "writeBack r final inPlace = r"

definition groupResult :: "RollBase list \<Rightarrow> int \<Rightarrow> int \<Rightarrow> bool \<Rightarrow> RollBase" where
  "groupResult rolls succs fails targeted =
     (let v = sumValid (map getFields rolls)
      in GroupRoll \<lparr>value = v, valid = True, success = (if targeted then Some (v > 0) else None),
            successes = succs, failures = fails, order = 0, label = None, drop_flag = False\<rparr> rolls)"

text \<open>
  \<^verbatim>\<open>async_map\<close> is \<^verbatim>\<open>Promise.all(array.map(func))\<close>: it starts the evaluation of every
  member before any of them has finished, and the members then advance in the order in
  which the job queue resumes them. A member computes from the numbers it draws and from
  nothing else that another member changes (a transform found in \<^verbatim>\<open>cached\<close> is the one
  the resolver would return), so the result tree is that of evaluating the members one
  after the other on the numbers they get, which is what \<open>async_map\<close> below does
  with \<open>schedule\<close>. When several members throw, \<^verbatim>\<open>Promise.all\<close> rejects with the error
  that is thrown first; the model reports the error of the leftmost failing member.
\<close>

paragraph \<open>doReplacement\<close>

text \<open>
  \<^verbatim>\<open>cached\<close> is a plain object: for a name that \<^verbatim>\<open>Object.prototype\<close> defines,
  \<^verbatim>\<open>this.cached[name]\<close> finds the inherited member, which is no numeric transform.
\<close>

definition objectPrototypeKeys :: "string list" where
  "objectPrototypeKeys = [''constructor'', ''__defineGetter__'', ''__defineSetter__'',
     ''hasOwnProperty'', ''__lookupGetter__'', ''__lookupSetter__'', ''isPrototypeOf'',
     ''propertyIsEnumerable'', ''toString'', ''valueOf'', ''__proto__'', ''toLocaleString'']"

definition lookupReplacement :: "DiceRoller \<Rightarrow> string \<Rightarrow> (real \<Rightarrow> real) Eval" where
  "lookupReplacement cfg name st =
     (if name \<in> set objectPrototypeKeys then Some (Inl OutsideExactArithmetic, st)
      else case cached st name of
        Some f \<Rightarrow> Some (Inr f, st)
      | None \<Rightarrow>
          (case replacementFunctions cfg name of
             None \<Rightarrow> Some (Inl (ResolverRejected name), st)
           | Some f \<Rightarrow> Some (Inr f, st\<lparr>cached := (cached st)(name \<mapsto> f)\<rparr>)))"

subsection \<open>The mutually recursive methods\<close>

function (sequential)
    rollType :: "DiceRoller \<Rightarrow> RootType \<Rightarrow> RollBase Eval"
and rollDiceExpr :: "DiceRoller \<Rightarrow> RootType \<Rightarrow> (string \<times> RootType) list \<Rightarrow> RollBase Eval"
and rollDiceExprOps :: "DiceRoller \<Rightarrow> (string \<times> RootType) list \<Rightarrow> nat \<Rightarrow> real \<Rightarrow> (real \<times> RollBase list \<times> string list) Eval"
and rollGroup :: "DiceRoller \<Rightarrow> RootType list \<Rightarrow> ParsedType list option \<Rightarrow> RollBase Eval"
and async_map :: "DiceRoller \<Rightarrow> RootType list \<Rightarrow> nat \<Rightarrow> RollBase list Eval"
and applyGroupMod :: "DiceRoller \<Rightarrow> ParsedType \<Rightarrow> (nat \<times> RollBase) list \<Rightarrow> (nat \<times> RollBase) list Eval"
and applyGroupMods :: "DiceRoller \<Rightarrow> ParsedType list \<Rightarrow> (nat \<times> RollBase) list \<Rightarrow> bool \<Rightarrow> nat list \<Rightarrow> ((nat \<times> RollBase) list \<times> nat list) Eval"
and rollDie :: "DiceRoller \<Rightarrow> RootType \<Rightarrow> DieExpr \<Rightarrow> ParsedType list option \<Rightarrow> ParsedType list option \<Rightarrow> MatchModType option \<Rightarrow> bool option \<Rightarrow> RollBase Eval"
and resolveTarget :: "DiceRoller \<Rightarrow> (string \<times> RootType) option \<Rightarrow> (string \<times> real) option Eval"
and applyMod :: "DiceRoller \<Rightarrow> ParsedType \<Rightarrow> DieRollBase list \<Rightarrow> DieRollBase list Eval"
and applyMods :: "DiceRoller \<Rightarrow> ParsedType list \<Rightarrow> DieRollBase list \<Rightarrow> DieRollBase list Eval"
and async_filter :: "DiceRoller \<Rightarrow> string \<Rightarrow> RootType \<Rightarrow> (real \<times> nat) list \<Rightarrow> real list Eval"
and rollExpression :: "DiceRoller \<Rightarrow> RootType \<Rightarrow> (string \<times> RootType) list \<Rightarrow> RollBase Eval"
and rollExpressionOps :: "DiceRoller \<Rightarrow> (string \<times> RootType) list \<Rightarrow> real \<Rightarrow> (real \<times> RollBase list \<times> string list) Eval"
and doReplacement :: "DiceRoller \<Rightarrow> string \<Rightarrow> RootType \<Rightarrow> RollBase Eval"
and rollFunction :: "DiceRoller \<Rightarrow> string \<Rightarrow> RootType \<Rightarrow> RollBase Eval"
where
  "rollType cfg (RollExpressionType h ops l) = withLabel l (rollDiceExpr cfg h ops)"
| "rollType cfg (GroupedRoll members mods l) = withLabel l (rollGroup cfg members mods)"
| "rollType cfg (DiceRoll cnt d mods targets mtch srt l) = withLabel l (rollDie cfg cnt d mods targets mtch srt)"
| "rollType cfg (MathExpression h ops l) = withLabel l (rollExpression cfg h ops)"
| "rollType cfg (MathFunctionExpression opn e l) = withLabel l (rollFunction cfg opn e)"
| "rollType cfg (CustomReplacementExpression called e l) = withLabel l (doReplacement cfg called e)"
| "rollType cfg (InlineExpression e l) = withLabel l (rollType cfg e)"
| "rollType cfg (NumberType v l) = withLabel l (ret (NumberRoll ((plain v)\<lparr>label := l\<rparr>)))"
| "rollType cfg (OtherType t l) = throw (UnableToRender t)"

| "rollDiceExpr cfg h ops =
     andThen (rollType cfg h) (\<lambda>headRoll.
     andThen (rollDiceExprOps cfg ops 0 (value (getFields headRoll))) (\<lambda>(v, rolls, opsOut).
     ret (DiceExpressionRoll (plain v) (headRoll # rolls) opsOut)))"
| "rollDiceExprOps cfg [] ord headValue = ret (headValue, [], [])"
| "rollDiceExprOps cfg ((opn, t) # rest) ord headValue =
     andThen (rollType cfg t) (\<lambda>tailRoll.
     andThen (rollDiceExprOps cfg rest (ord + 1)
        (if opn = ''+'' then headValue + value (getFields tailRoll)
         else if opn = ''-'' then headValue - value (getFields tailRoll)
         else headValue)) (\<lambda>(v, rolls, opsOut).
     ret (v, putFields ((getFields tailRoll)\<lparr>order := ord\<rparr>) tailRoll # rolls, opn # opsOut)))"

| "rollGroup cfg members mods =
     andThen (async_map cfg members 0) (\<lambda>rolls.
     case mods of
       None \<Rightarrow> ret (groupResult rolls 0 0 False)
     | Some ms \<Rightarrow>
         (if length rolls = 1 \<and> (rollType_of (hd rolls) = ''die'' \<or> rollType_of (hd rolls) = ''diceexpressionroll'') then
            (case flattenMember (hd rolls) of
               Inl e \<Rightarrow> throw e
             | Inr dice \<Rightarrow>
                 andThen (applyGroupMods cfg ms (enumerate 0 dice) True [0 ..< length dice]) (\<lambda>(modded, inPlace).
                 case groupTargets (hasTarget ms) modded of (final, succs, fails) \<Rightarrow>
                   ret (groupResult
                          [putFields ((getFields (hd rolls))\<lparr>value := sumValid (map poolGet final)\<rparr>)
                             (writeBack (hd rolls) final inPlace)]
                          succs fails (hasTarget ms))))
          else
            andThen (applyGroupMods cfg ms (enumerate 0 rolls) True [0 ..< length rolls]) (\<lambda>(modded, inPlace).
            case groupTargets (hasTarget ms) modded of (final, succs, fails) \<Rightarrow>
              ret (groupResult (map snd final) succs fails (hasTarget ms)))))"
| "async_map cfg [] ord = ret []"
| "async_map cfg (m # ms) ord =
     andThen (rollType cfg m) (\<lambda>r.
     andThen (async_map cfg ms (ord + 1)) (\<lambda>rs.
     ret (putFields ((getFields r)\<lparr>order := ord\<rparr>) r # rs)))"
| "applyGroupMod cfg (Success cmp e) rolls =
     andThen (rollType cfg e) (\<lambda>exprResult.
     ret (getSuccessMethod poolGet poolPut cmp (value (getFields exprResult)) poolLookup rolls))"
| "applyGroupMod cfg (Failure cmp e) rolls =
     andThen (rollType cfg e) (\<lambda>exprResult.
     ret (getFailureMethod poolGet poolPut cmp (value (getFields exprResult)) poolLookup rolls))"
| "applyGroupMod cfg (Keep hl e) rolls =
     andThen (rollType cfg e) (\<lambda>exprResult.
     ret (getKeepMethod poolGet poolPut hl (value (getFields exprResult)) poolLookup rolls))"
| "applyGroupMod cfg (Drop hl e) rolls =
     andThen (rollType cfg e) (\<lambda>exprResult.
     ret (getDropMethod poolGet poolPut hl (value (getFields exprResult)) poolLookup rolls))"
| "applyGroupMod cfg m rolls = throw (ModNotRecognised (modType m))"
| "applyGroupMods cfg [] arr aliased inPlace = ret (arr, inPlace)"
| "applyGroupMods cfg (m # ms) arr aliased inPlace =
     andThen (applyGroupMod cfg m arr) (\<lambda>arr'.
     let aliased' = (aliased \<and> (modType m = ''keep'' \<or> modType m = ''drop''))
     in applyGroupMods cfg ms arr' aliased' (if aliased' then map fst arr' else inPlace))"

| "rollDie cfg cnt d mods targets mtch srt =
     andThen (rollType cfg cnt) (\<lambda>countR.
     if value (getFields countR) > maxRollCount cfg then throw TooManyDice
     else
       andThen (case d of
           FateExpr \<Rightarrow>
             andThen (generateRolls (value (getFields countR)) (generateFateRoll cfg)) (\<lambda>rolls.
             ret (FateRoll ((plain 0)\<lparr>valid := False\<rparr>), rolls))
         | RollExpr e \<Rightarrow>
             andThen (rollType cfg e) (\<lambda>dieR.
             andThen (generateRolls (value (getFields countR)) (generateDiceRoll cfg (value (getFields dieR)))) (\<lambda>rolls.
             ret (dieR, rolls)))) (\<lambda>(dieR, rolls0).
       andThen (case mods of None \<Rightarrow> ret rolls0 | Some ms \<Rightarrow> applyMods cfg ms rolls0) (\<lambda>rolls1.
       andThen (case targets of
           None \<Rightarrow> ret rolls1
         | Some ts \<Rightarrow> andThen (applyMods cfg ts rolls1) (\<lambda>rs. ret (applyTargets rs))) (\<lambda>rolls2.
       andThen (case mtch of
           None \<Rightarrow> ret (rolls2, False, 0)
         | Some (MatchModType minCount countFlag cmp ex) \<Rightarrow>
             andThen (case (cmp, ex) of
                 (Some c, Some e) \<Rightarrow>
                   if c = [] then ret (map fst (filter (\<lambda>(v, n). real n \<ge> minCount) (countFaces rolls2)))
                   else async_filter cfg c e (filter (\<lambda>(v, n). real n \<ge> minCount) (countFaces rolls2))
               | _ \<Rightarrow> ret (map fst (filter (\<lambda>(v, n). real n \<ge> minCount) (countFaces rolls2)))) (\<lambda>matches.
             ret (markMatched matches rolls2, countFlag, if countFlag then length matches else 0))) (\<lambda>(rolls3, isMatched, matchCount).
       ret (dieResult countR dieR (case srt of None \<Rightarrow> rolls3 | Some asc \<Rightarrow> applySort rolls3 asc)
              (case targets of None \<Rightarrow> 0 | Some ts \<Rightarrow> sum_list (map successes rolls2))
              (case targets of None \<Rightarrow> 0 | Some ts \<Rightarrow> sum_list (map failures rolls2))
              (targets \<noteq> None) isMatched matchCount))))))"
| "resolveTarget cfg None = ret None"
| "resolveTarget cfg (Some (cmp, e)) =
     andThen (rollType cfg e) (\<lambda>targetValue. ret (Some (cmp, value (getFields targetValue))))"
| "applyMod cfg (Success cmp e) rolls =
     andThen (rollType cfg e) (\<lambda>exprResult.
     ret (getSuccessMethod trialFields putTrialFields cmp (value (getFields exprResult)) roll rolls))"
| "applyMod cfg (Failure cmp e) rolls =
     andThen (rollType cfg e) (\<lambda>exprResult.
     ret (getFailureMethod trialFields putTrialFields cmp (value (getFields exprResult)) roll rolls))"
| "applyMod cfg (Crit cmp e) rolls =
     andThen (rollType cfg e) (\<lambda>exprResult.
     ret (getCritSuccessMethod cmp (value (getFields exprResult)) roll rolls))"
| "applyMod cfg (CritFail cmp e) rolls =
     andThen (rollType cfg e) (\<lambda>exprResult.
     ret (getCritFailureMethod cmp (value (getFields exprResult)) roll rolls))"
| "applyMod cfg (Keep hl e) rolls =
     andThen (rollType cfg e) (\<lambda>exprResult.
     ret (sortByOrder (getKeepMethod trialFields putTrialFields hl (value (getFields exprResult)) roll rolls)))"
| "applyMod cfg (Drop hl e) rolls =
     andThen (rollType cfg e) (\<lambda>exprResult.
     ret (sortByOrder (getDropMethod trialFields putTrialFields hl (value (getFields exprResult)) roll rolls)))"
| "applyMod cfg (Explode t) rolls =
     andThen (resolveTarget cfg t) (\<lambda>tv. lift (getExplodeMethod cfg tv rolls))"
| "applyMod cfg (Compound t) rolls =
     andThen (resolveTarget cfg t) (\<lambda>tv. lift (getCompoundMethod cfg tv rolls))"
| "applyMod cfg (Penetrate t) rolls =
     andThen (resolveTarget cfg t) (\<lambda>tv. lift (getPenetrateMethod cfg tv rolls))"
| "applyMod cfg (ReRoll t) rolls =
     andThen (resolveTarget cfg t) (\<lambda>tv. getReRollMethod cfg tv rolls)"
| "applyMod cfg (ReRollOnce t) rolls =
     andThen (resolveTarget cfg t) (\<lambda>tv. lift (getReRollOnceMethod cfg tv rolls))"
| "applyMod cfg (OtherMod s) rolls = throw (ModNotRecognised s)"
| "applyMods cfg [] rolls = ret rolls"
| "applyMods cfg (m # ms) rolls =
     andThen (applyMod cfg m rolls) (\<lambda>moddedRolls. applyMods cfg ms moddedRolls)"
| "async_filter cfg cmp e [] = ret []"
| "async_filter cfg cmp e ((v, n) # rest) =
     andThen (rollType cfg e) (\<lambda>exprResult.
     andThen (async_filter cfg cmp e rest) (\<lambda>vs.
     ret (if successTest cmp (value (getFields exprResult)) v then v # vs else vs)))"

| "rollExpression cfg h ops =
     andThen (rollType cfg h) (\<lambda>headRoll.
     andThen (rollExpressionOps cfg ops (value (getFields headRoll))) (\<lambda>(v, rolls, opsOut).
     ret (ExpressionRoll (plain v) (headRoll # rolls) opsOut)))"
| "rollExpressionOps cfg [] headValue = ret (headValue, [], [])"
| "rollExpressionOps cfg ((opn, t) # rest) headValue =
     andThen (rollType cfg t) (\<lambda>tailRoll.
     case mathOp opn headValue (value (getFields tailRoll)) of
       Inl e \<Rightarrow> throw e
     | Inr v \<Rightarrow>
         andThen (rollExpressionOps cfg rest v) (\<lambda>(v', rolls, opsOut).
         ret (v', tailRoll # rolls, opn # opsOut)))"

| "doReplacement cfg called e =
     andThen (rollType cfg e) (\<lambda>r.
     andThen (lookupReplacement cfg called) (\<lambda>replaceFunction.
     ret (ReplacementRoll ((plain (replaceFunction (value (getFields r))))\<lparr>success := Some True\<rparr>) called r)))"
| "rollFunction cfg opn e =
     andThen (rollType cfg e) (\<lambda>x.
     ret (MathFunctionRoll (plain (mathFunction opn (value (getFields x)))) x opn))"
  by pat_completeness auto

termination
  by (relation "measures
     [case_sum
        (case_sum
           (case_sum
              (case_sum (\<lambda>(cfg, n). 3 * size n)
                        (\<lambda>(cfg, h, ops). 3 * (size h + size_list (size_prod (\<lambda>_. 0) size) ops) + 2))
              (case_sum (\<lambda>(cfg, ops, ord, headValue). 3 * size_list (size_prod (\<lambda>_. 0) size) ops + 1)
                        (\<lambda>(cfg, members, mods). 3 * (size_list size members + size_option (size_list size) mods) + 2)))
           (case_sum
              (case_sum (\<lambda>(cfg, members, ord). 3 * size_list size members + 1)
                        (\<lambda>(cfg, m, rolls). 3 * size m + 2))
              (case_sum (\<lambda>(cfg, mods, arr, aliased, inPlace). 3 * size_list size mods + 1)
                        (\<lambda>(cfg, cnt, d, mods, targets, mtch, srt).
                            3 * (size cnt + size d + size_option (size_list size) mods
                                 + size_option (size_list size) targets + size_option size mtch) + 2))))
        (case_sum
           (case_sum
              (case_sum (\<lambda>(cfg, t). 3 * size_option (size_prod (\<lambda>_. 0) size) t + 1)
                        (\<lambda>(cfg, m, rolls). 3 * size m + 2))
              (case_sum (\<lambda>(cfg, mods, rolls). 3 * size_list size mods + 1)
                        (\<lambda>(cfg, cmp, e, candidates). 3 * size e + 1)))
           (case_sum
              (case_sum (\<lambda>(cfg, h, ops). 3 * (size h + size_list (size_prod (\<lambda>_. 0) size) ops) + 2)
                        (\<lambda>(cfg, ops, headValue). 3 * size_list (size_prod (\<lambda>_. 0) size) ops + 1))
              (case_sum (\<lambda>(cfg, called, e). 3 * size e + 2)
                        (\<lambda>(cfg, opn, e). 3 * size e + 2)))),
      case_sum (\<lambda>_. 0)
        (case_sum
           (case_sum (\<lambda>_. 0) (case_sum (\<lambda>_. 0) (\<lambda>(cfg, cmp, e, candidates). length candidates)))
           (\<lambda>_. 0))]")
     auto

text \<open>
  The equations of the node methods are unfolded on request only.
\<close>

lemmas method_simps = rollDiceExpr.simps rollGroup.simps rollDie.simps rollExpression.simps
  doReplacement.simps rollFunction.simps

declare method_simps [simp del]

section \<open>Concrete rollers\<close>

text \<open>
  A roller with the defaults of the constructor (at most 1000 dice, the resolver that
  answers with the identity) around a given source, on a runtime that serves the calls
  of the source in the order of the model; the state of a roller that has not been
  used; and a source that returns the numbers of a list in turn.
\<close>

definition rollerWith :: "(nat \<Rightarrow> real) \<Rightarrow> DiceRoller" where
  "rollerWith src = \<lparr>randFunction = src, maxRollCount = 1000,
      replacementFunctions = (\<lambda>name. Some (\<lambda>x. x)), schedule = (\<lambda>k. k)\<rparr>"

definition initialState :: RollerState where
  "initialState = \<lparr>drawn = 0, cached = Map.empty\<rparr>"

definition sourceOf :: "real list \<Rightarrow> nat \<Rightarrow> real" where
  "sourceOf xs k = (if k < length xs then xs ! k else 0)"

text \<open>The die node \<^verbatim>\<open>1d6\<close> without modifiers, targets, match or sort.\<close>

definition d6 :: RootType where
  "d6 = DiceRoll (NumberType 1 None) (RollExpr (NumberType 6 None)) None None None None None"

text \<open>The die node \<^verbatim>\<open>2d6\<close>, as plain.\<close>

definition twoD6 :: RootType where
  "twoD6 = DiceRoll (NumberType 2 None) (RollExpr (NumberType 6 None)) None None None None None"

text \<open>The trial that \<^verbatim>\<open>generateDiceRoll(d, ord)\<close> returns when it rolls the face \<open>r\<close>.\<close>

definition dieTrial :: "real \<Rightarrow> real \<Rightarrow> nat \<Rightarrow> DieRollBase" where
  "dieTrial d r ord =
     \<lparr>value = r, valid = True, success = None, successes = 0, failures = 0,
      order = ord, label = None, drop_flag = False,
      type = ''roll'', die = Some d, roll = r,
      critical = (if r = d then Some ''success'' else if r = 1 then Some ''failure'' else None),
      matched = False, reroll = False, explode = False\<rparr>"

section \<open>Vocabulary of the properties\<close>

text \<open>
  An inline node returns the result of its expression: the node variant that decides the
  result is the one under the inline wrappers.
\<close>

fun stripInline :: "RootType \<Rightarrow> RootType" where
  "stripInline (InlineExpression e l) = stripInline e"
| "stripInline n = n"




text \<open>
  The pool of individual die outcomes under a result node, read recursively: the trials
  of a die result, and for a dice expression the pools of its children one after the
  other, a number contributing nothing. This is the pool that a description of the group
  modifiers in terms of individual outcomes speaks of; \<open>flattenMember\<close> is the pool
  that \<^verbatim>\<open>rollGroup\<close> builds.
\<close>

fun claimedPool :: "RollBase \<Rightarrow> DieRollBase list" where
  "claimedPool (DiceRollResult f c d rs m) = rs"
| "claimedPool (DiceExpressionRoll f ds os) = concat (map claimedPool ds)"
| "claimedPool r = []"

fun numberOrDie :: "RollBase \<Rightarrow> bool" where
  "numberOrDie (NumberRoll f) = True"
| "numberOrDie (DiceRollResult f c d rs m) = True"
| "numberOrDie r = False"

section \<open>Properties\<close>

lemmas eval_defs = andThen_def ret_def throw_def lift_def withLabel_def copyLabel_def plain_def

subsection \<open>Results of sequenced computations\<close>

lemma andThen_Inr:
  assumes "andThen m k st = Some (Inr y, st')"
  obtains x st1 where "m st = Some (Inr x, st1)" and "k x st1 = Some (Inr y, st')"
  using assms by (auto simp: andThen_def split: option.splits sum.splits prod.splits)

lemma ret_Inr [simp]: "ret x st = Some (Inr y, st') \<longleftrightarrow> y = x \<and> st' = st"
  by (auto simp: ret_def)

lemma throw_Inr [simp]: "throw e st \<noteq> Some (Inr y, st')"
  by (simp add: throw_def)

lemma withLabel_Inr:
  assumes "withLabel l m st = Some (Inr r, st')"
  obtains r0 where "m st = Some (Inr r0, st')" and "r = copyLabel l r0"
  using assms unfolding withLabel_def by (auto elim!: andThen_Inr)

lemma trialFields_putTrialFields [simp]: "trialFields (putTrialFields f t) = f"
  by (simp add: trialFields_def putTrialFields_def RollFields.truncate_def)

lemma getFields_putFields [simp]: "getFields (putFields f r) = f"
  by (cases r) simp_all

lemma copyLabel_success [simp]: "success (getFields (copyLabel l r)) = success (getFields r)"
  by (simp add: copyLabel_def split: option.splits)

lemma copyLabel_valid [simp]: "valid (getFields (copyLabel l r)) = valid (getFields r)"
  by (simp add: copyLabel_def split: option.splits)

lemma copyLabel_value [simp]: "value (getFields (copyLabel l r)) = value (getFields r)"
  by (simp add: copyLabel_def split: option.splits)

subsection \<open>The success test\<close>

text \<open>
  C9. The shared success test is true under \<^verbatim>\<open>">"\<close> (at least) iff the value is at least
  the target, under \<^verbatim>\<open>"<"\<close> (at most) iff the value is at most the target, and under
  \<^verbatim>\<open>"="\<close> or any other comparator iff the value equals the target. It is a function of
  its three arguments: it neither reads nor changes the state of the roller.
\<close>

theorem successTest_cases:
  "(successTest ''>'' target x \<longleftrightarrow> x \<ge> target) \<and>
   (successTest ''<'' target x \<longleftrightarrow> x \<le> target) \<and>
   (cmp \<noteq> ''>'' \<and> cmp \<noteq> ''<'' \<longrightarrow> (successTest cmp target x \<longleftrightarrow> x = target))"
  by simp

theorem successTest_cases_witness:
  "''>='' \<noteq> ''>'' \<and> ''>='' \<noteq> ''<'' \<and> successTest ''>='' 4 4 \<and> \<not> successTest ''>='' 4 5 \<and>
   successTest ''>'' 4 5 \<and> \<not> successTest ''<'' 4 5"
  using successTest_cases [of 4 4 "''>=''"] successTest_cases [of 4 5 "''>=''"]
  by simp

subsection \<open>Standard dice\<close>

text \<open>
  C1. The claim is that every trial of a standard die has its face in the range from 1
  to the number of faces. With a source that returns \<open>15/16\<close> the die \<^verbatim>\<open>1d6\<close> rolls
  \<open>parseInt((0.9375 * 6).toFixed(), 10) + 1\<close>, which is 7: \<^verbatim>\<open>toFixed\<close> rounds \<open>5.625\<close> to
  6 where \<^verbatim>\<open>Math.floor\<close> gave 5.
\<close>

theorem d6_rolls_seven:
  "rollType (rollerWith (\<lambda>k. 15 / 16)) d6 initialState =
     Some (Inr (DiceRollResult (plain 7) (NumberRoll (plain 1)) (NumberRoll (plain 6))
                 [\<lparr>value = 7, valid = True, success = None, successes = 0, failures = 0,
                   order = 0, label = None, drop_flag = False,
                   type = ''roll'', die = Some 6, roll = 7, critical = None, matched = False,
                   reroll = False, explode = False\<rparr>] False),
           \<lparr>drawn = 1, cached = Map.empty\<rparr>)"
  by (simp add: d6_def rollerWith_def initialState_def eval_defs generateRolls_def
        rollDie.simps generateDiceRoll_def nextRandom_def parseIntToFixed_def dieResult_def sumValid_def
        trialFields_def RollFields.truncate_def numeral_nat)

subsection \<open>The test for a target that matches everything\<close>





subsection \<open>The success field\<close>

lemma doReplacement_success:
  "doReplacement cfg called e st = Some (Inr r, st') \<Longrightarrow> success (getFields r) = Some True \<and> valid (getFields r)"
  by (auto elim!: andThen_Inr simp: plain_def doReplacement.simps)

lemma rollDie_success:
  "rollDie cfg cnt d mods None mtch srt st = Some (Inr r, st') \<Longrightarrow> success (getFields r) = None"
  by (auto elim!: andThen_Inr simp: rollDie.simps dieResult_def Let_def split: if_splits)

lemma rollGroup_success:
  "rollGroup cfg members mods st = Some (Inr r, st') \<Longrightarrow> (case mods of None \<Rightarrow> True | Some ms \<Rightarrow> \<not> hasTarget ms) \<Longrightarrow>
     success (getFields r) = None"
  by (auto elim!: andThen_Inr simp: rollGroup.simps groupResult_def Let_def split: if_splits option.splits sum.splits prod.splits)

lemma rollType_plain_success:
  assumes "rollType cfg node st = Some (Inr r, st')"
  shows "(case node of
            InlineExpression e l \<Rightarrow> True
          | CustomReplacementExpression called e l \<Rightarrow> success (getFields r) = Some True \<and> valid (getFields r)
          | DiceRoll cnt d mods targets mtch srt l \<Rightarrow> targets = None \<longrightarrow> success (getFields r) = None
          | GroupedRoll members mods l \<Rightarrow>
              (case mods of None \<Rightarrow> True | Some ms \<Rightarrow> \<not> hasTarget ms) \<longrightarrow> success (getFields r) = None
          | _ \<Rightarrow> success (getFields r) = None)"
proof (cases node)
  case (CustomReplacementExpression called e l)
  with assms show ?thesis by (auto elim!: withLabel_Inr dest: doReplacement_success)
next
  case (DiceRoll cnt d mods targets mtch srt l)
  with assms show ?thesis by (auto elim!: withLabel_Inr dest: rollDie_success)
next
  case (GroupedRoll members mods l)
  with assms show ?thesis by (auto elim!: withLabel_Inr dest: rollGroup_success)
next
  case (NumberType v l)
  with assms show ?thesis by (auto elim!: withLabel_Inr simp: plain_def)
next
  case (MathExpression h ops l)
  with assms show ?thesis
    by (auto elim!: withLabel_Inr andThen_Inr simp: plain_def rollExpression.simps)
next
  case (RollExpressionType h ops l)
  with assms show ?thesis
    by (auto elim!: withLabel_Inr andThen_Inr simp: plain_def rollDiceExpr.simps)
next
  case (MathFunctionExpression opn e l)
  with assms show ?thesis
    by (auto elim!: withLabel_Inr andThen_Inr simp: plain_def rollFunction.simps)
qed (use assms in auto)

lemma stripInline_not_inline: "stripInline node \<noteq> InlineExpression e l"
  by (induction node rule: stripInline.induct) auto

lemma rollType_stripInline:
  "rollType cfg node st = Some (Inr r, st') \<Longrightarrow>
     \<exists>r0. rollType cfg (stripInline node) st = Some (Inr r0, st') \<and>
          success (getFields r) = success (getFields r0) \<and> valid (getFields r) = valid (getFields r0)"
proof (induction node arbitrary: r rule: stripInline.induct)
  case (1 e l)
  from "1.prems" obtain r1 where r1: "rollType cfg e st = Some (Inr r1, st')" and r: "r = copyLabel l r1"
    by (auto elim!: withLabel_Inr)
  from "1.IH"[OF r1] r show ?case by auto
qed auto

text \<open>
  C10. Whenever the evaluation of a node returns a result: if the node (under its inline
  wrappers) is a replacement, the result has \<open>success = true\<close> and \<open>valid = true\<close>,
  whatever the result of its expression; for every other variant without targets (a die
  without \<open>targets\<close>, a group without a success or failure modifier, and all the
  others) \<open>success\<close> is \<open>null\<close>.
\<close>

theorem replacement_success:
  assumes "rollType cfg node st = Some (Inr r, st')"
  shows "(case stripInline node of
            CustomReplacementExpression called e l \<Rightarrow> success (getFields r) = Some True \<and> valid (getFields r)
          | DiceRoll cnt d mods targets mtch srt l \<Rightarrow> targets = None \<longrightarrow> success (getFields r) = None
          | GroupedRoll members mods l \<Rightarrow>
              (case mods of None \<Rightarrow> True | Some ms \<Rightarrow> \<not> hasTarget ms) \<longrightarrow> success (getFields r) = None
          | _ \<Rightarrow> success (getFields r) = None)"
proof -
  from rollType_stripInline[OF assms] obtain r0 where
    r0: "rollType cfg (stripInline node) st = Some (Inr r0, st')" and
    eq: "success (getFields r) = success (getFields r0)" "valid (getFields r) = valid (getFields r0)"
    by blast
  from rollType_plain_success[OF r0] eq show ?thesis
    by (cases "stripInline node") (simp_all add: stripInline_not_inline)
qed

theorem replacement_success_witness:
  "rollType (rollerWith (\<lambda>k. 0)) (InlineExpression (CustomReplacementExpression ''double'' (NumberType 5 None) None) None)
       initialState
     = Some (Inr (ReplacementRoll ((plain 5)\<lparr>success := Some True\<rparr>) ''double'' (NumberRoll (plain 5))),
             \<lparr>drawn = 0, cached = [''double'' \<mapsto> (\<lambda>x. x)]\<rparr>) \<and>
   success (getFields (ReplacementRoll ((plain 5)\<lparr>success := Some True\<rparr>) ''double'' (NumberRoll (plain 5)))) = Some True \<and>
   rollType (rollerWith (\<lambda>k. 0)) (NumberType 5 None) initialState
     = Some (Inr (NumberRoll (plain 5)), initialState) \<and>
   success (getFields (NumberRoll (plain 5))) = None"
proof -
  have ev: "rollType (rollerWith (\<lambda>k. 0))
        (InlineExpression (CustomReplacementExpression ''double'' (NumberType 5 None) None) None) initialState
      = Some (Inr (ReplacementRoll ((plain 5)\<lparr>success := Some True\<rparr>) ''double'' (NumberRoll (plain 5))),
              \<lparr>drawn = 0, cached = [''double'' \<mapsto> (\<lambda>x. x)]\<rparr>)"
    by (simp add: rollerWith_def initialState_def eval_defs doReplacement.simps lookupReplacement_def
          objectPrototypeKeys_def)
  have ev2: "rollType (rollerWith (\<lambda>k. 0)) (NumberType 5 None) initialState
      = Some (Inr (NumberRoll (plain 5)), initialState)"
    by (simp add: eval_defs)
  from replacement_success[OF ev] replacement_success[OF ev2] ev ev2 show ?thesis by simp
qed

subsection \<open>The value of an aggregate\<close>

lemma sumValid_foldl:
  "foldl (\<lambda>sum f. if valid f then sum + value f else sum) a fs = a + sum_list (map value (filter valid fs))"
  by (induction fs arbitrary: a) auto

lemma sumValid_eq: "sumValid fs = sum_list (map value (filter valid fs))"
  by (simp add: sumValid_def sumValid_foldl)

lemma sumValid_Cons [simp]: "sumValid (f # fs) = (if valid f then value f else 0) + sumValid fs"
  by (simp add: sumValid_eq)

lemma sumValid_Nil [simp]: "sumValid [] = 0"
  by (simp add: sumValid_eq)

lemma rollType_relabel:
  assumes inv: "\<And>l x. P (copyLabel l x) = P x"
  shows "rollType cfg node st = Some (Inr r, st') \<Longrightarrow>
     \<exists>r0. rollType cfg (stripInline node) st = Some (Inr r0, st') \<and> P r = P r0"
proof (induction node arbitrary: r rule: stripInline.induct)
  case (1 e l)
  from "1.prems" obtain r1 where r1: "rollType cfg e st = Some (Inr r1, st')" and r: "r = copyLabel l r1"
    by (auto elim!: withLabel_Inr)
  from "1.IH"[OF r1] r inv show ?case by auto
qed auto

lemma rollType_valid:
  assumes "rollType cfg node st = Some (Inr r, st')"
  shows "valid (getFields r)"
proof -
  from rollType_relabel[where P = "\<lambda>x. valid (getFields x)", OF _ assms] obtain r0 where
    r0: "rollType cfg (stripInline node) st = Some (Inr r0, st')"
    and eq: "valid (getFields r) = valid (getFields r0)" by auto
  have "valid (getFields r0)"
    using r0
    by (cases "stripInline node")
       (auto elim!: withLabel_Inr andThen_Inr
             simp: stripInline_not_inline method_simps plain_def dieResult_def groupResult_def Let_def
             split: if_splits option.splits sum.splits prod.splits)
  with eq show ?thesis by simp
qed























lemma markMatched_Nil [simp]: "markMatched [] rolls = rolls"
  by (simp add: markMatched_def)






text \<open>
  C4 as stated fails. The math expression \<^verbatim>\<open>2 * 3\<close> has the value 6 and two valid children
  whose values add up to 5, with no target and no match. And the group \<^verbatim>\<open>{3, 5}\<close> with the
  modifiers success \<^verbatim>\<open>>3\<close> and drop lowest 1 has targets, two successes and no failure, and
  the value 1: the dropped member keeps its success but not its place in the sum.
\<close>

lemmas pool_defs = poolGet_def poolPut_def poolLookup_def groupTargets_def groupResult_def hasTarget_def


subsection \<open>Keep on a group\<close>

text \<open>
  C3: keep highest leaves the entries in their original order (by \<^verbatim>\<open>order\<close>), on the
  trials of a die and on the members of a group alike. On the trials of a die it does:
  \<^verbatim>\<open>getModMethod\<close> sorts what keep returns by \<^verbatim>\<open>order\<close>. On the members of a group
  it does not: \<^verbatim>\<open>getGroupModMethod\<close> returns the array as keep has sorted it. The
  group \<^verbatim>\<open>{5, 3}\<close> with keep highest 1 comes back as 3 (dropped, order 1) before 5
  (order 0), while the trials 5 and 3 of a die come back as 5 before 3 (dropped).
\<close>

theorem group_keep_loses_order:
  "rollType (rollerWith (\<lambda>k. 0))
      (GroupedRoll [NumberType 5 None, NumberType 3 None] (Some [Keep ''h'' (NumberType 1 None)]) None)
      initialState
     = Some (Inr (GroupRoll (plain 5)
           [NumberRoll \<lparr>value = 3, valid = False, success = None, successes = 0, failures = 0,
                       order = 1, label = None, drop_flag = True\<rparr>,
            NumberRoll \<lparr>value = 5, valid = True, success = None, successes = 0, failures = 0,
                       order = 0, label = None, drop_flag = False\<rparr>]), initialState) \<and>
   applyMod (rollerWith (\<lambda>k. 0)) (Keep ''h'' (NumberType 1 None)) [dieTrial 6 5 0, dieTrial 6 3 1] initialState
     = Some (Inr [dieTrial 6 5 0, (dieTrial 6 3 1)\<lparr>valid := False, drop_flag := True\<rparr>], initialState)"
  by (simp add: eval_defs rollGroup.simps pool_defs getKeepMethod_def sumValid_def sortByOrder_def
        dieTrial_def trialFields_def putTrialFields_def RollFields.truncate_def)

subsection \<open>A group with a single member\<close>

lemma flattenDice_claimed:
  "\<forall>c\<in>set ds. numberOrDie c \<Longrightarrow> flattenDice ds = Inr (map DieRoll (concat (map claimedPool ds)))"
proof (induction ds)
  case Nil
  then show ?case by simp
next
  case (Cons c ds)
  then show ?case by (cases c) simp_all
qed

lemma flattenMember_putFields [simp]: "flattenMember (putFields f r) = flattenMember r"
  by (cases r) simp_all

lemma rollType_of_putFields:
  "rollType_of r = ''die'' \<or> rollType_of r = ''diceexpressionroll'' \<Longrightarrow>
   rollType_of (putFields f r) = rollType_of r"
  by (cases r) (simp_all add: putTrialFields_def)

lemma twoD6_rolls:
  "rollType (rollerWith (sourceOf [3 / 16, 11 / 16])) twoD6 initialState
     = Some (Inr (DiceRollResult (plain 7) (NumberRoll (plain 2)) (NumberRoll (plain 6))
                    [dieTrial 6 2 0, dieTrial 6 5 1] False),
             \<lparr>drawn = 2, cached = Map.empty\<rparr>)"
  by (simp add: twoD6_def rollerWith_def initialState_def sourceOf_def eval_defs generateRolls_def dieTrial_def
        rollDie.simps generateDiceRoll_def nextRandom_def parseIntToFixed_def dieResult_def sumValid_def
        trialFields_def RollFields.truncate_def numeral_nat)

text \<open>
  C8, amended: when a group with modifiers has exactly one member and the member
  evaluates to a die result or to a dice expression, the modifiers run on the pool
  \<open>flattenMember\<close> of the member, flattened one level: the trials of a die result, and
  for a dice expression its children with the numbers left out, a die child replaced by
  its trials and any other child by its own children, which are not opened further. When
  every child of the dice expression is a number or a die result this is the pool of
  individual outcomes. The value of the member is then set to the sum of the valid entries of
  the pool (after the targets of the group have rewritten their values), and that is the
  value of the group.
\<close>

theorem group_single_member:
  assumes g: "rollGroup cfg [m] (Some ms) st = Some (Inr g, st')"
      and r: "rollType cfg m st = Some (Inr r, st1)"
      and t: "rollType_of r = ''die'' \<or> rollType_of r = ''diceexpressionroll''"
  shows "\<exists>dice modded inPlace final succs fails f member.
           flattenMember r = Inr dice \<and>
           applyGroupMods cfg ms (enumerate 0 dice) True [0 ..< length dice] st1
             = Some (Inr (modded, inPlace), st') \<and>
           groupTargets (hasTarget ms) modded = (final, succs, fails) \<and>
           g = GroupRoll f [member] \<and>
           member = putFields ((getFields r)\<lparr>order := 0, value := sumValid (map poolGet final)\<rparr>)
                      (writeBack (putFields ((getFields r)\<lparr>order := 0\<rparr>) r) final inPlace) \<and>
           value (getFields member) = sumValid (map poolGet final) \<and>
           value f = sumValid (map poolGet final) \<and>
           (case r of
              DiceRollResult fr c d rs mt \<Rightarrow> dice = map DieRoll rs
            | DiceExpressionRoll fr ds os \<Rightarrow>
                (\<forall>c\<in>set ds. numberOrDie c) \<longrightarrow> dice = map DieRoll (claimedPool r)
            | _ \<Rightarrow> False)"
proof -
  let ?r = "putFields ((getFields r)\<lparr>order := 0\<rparr>) r"
  have am: "async_map cfg [m] 0 st = Some (Inr [?r], st1)"
    using r by (simp add: andThen_def ret_def)
  have ty: "rollType_of ?r = ''die'' \<or> rollType_of ?r = ''diceexpressionroll''"
    using t rollType_of_putFields[OF t] by simp
  from g r ty obtain dice modded inPlace final succs fails where
    fl: "flattenMember r = Inr dice" and
    ap: "applyGroupMods cfg ms (enumerate 0 dice) True [0 ..< length dice] st1 = Some (Inr (modded, inPlace), st')" and
    gt: "groupTargets (hasTarget ms) modded = (final, succs, fails)" and
    res: "g = groupResult [putFields ((getFields ?r)\<lparr>value := sumValid (map poolGet final)\<rparr>)
                            (writeBack ?r final inPlace)] succs fails (hasTarget ms)"
    by (auto simp: rollGroup.simps elim!: andThen_Inr split: sum.splits if_splits prod.splits)
  have shape: "case r of
              DiceRollResult fr c d rs mt \<Rightarrow> dice = map DieRoll rs
            | DiceExpressionRoll fr ds os \<Rightarrow>
                (\<forall>c\<in>set ds. numberOrDie c) \<longrightarrow> dice = map DieRoll (claimedPool r)
            | _ \<Rightarrow> False"
    using t fl by (cases r) (auto simp: flattenDice_claimed)
  from res gt fl ap shape rollType_valid[OF r] show ?thesis
    by (simp add: groupResult_def Let_def)
qed


theorem group_single_member_witness:
  "rollGroup (rollerWith (sourceOf [3 / 16, 11 / 16])) [twoD6] (Some [Keep ''h'' (NumberType 1 None)]) initialState
     = Some (Inr (GroupRoll (plain 5)
          [DiceRollResult (plain 5) (NumberRoll (plain 2)) (NumberRoll (plain 6))
             [(dieTrial 6 2 0)\<lparr>valid := False, drop_flag := True\<rparr>, dieTrial 6 5 1] False]),
        \<lparr>drawn = 2, cached = Map.empty\<rparr>) \<and>
   flattenMember (DiceRollResult (plain 7) (NumberRoll (plain 2)) (NumberRoll (plain 6))
                    [dieTrial 6 2 0, dieTrial 6 5 1] False)
     = Inr [DieRoll (dieTrial 6 2 0), DieRoll (dieTrial 6 5 1)] \<and>
   (\<exists>final succs fails modded inPlace.
       applyGroupMods (rollerWith (sourceOf [3 / 16, 11 / 16])) [Keep ''h'' (NumberType 1 None)]
          (enumerate 0 [DieRoll (dieTrial 6 2 0), DieRoll (dieTrial 6 5 1)]) True [0 ..< 2]
          \<lparr>drawn = 2, cached = Map.empty\<rparr>
         = Some (Inr (modded, inPlace), \<lparr>drawn = 2, cached = Map.empty\<rparr>) \<and>
       groupTargets False modded = (final, succs, fails) \<and>
       sumValid (map poolGet final) = 5)"
proof -
  let ?cfg = "rollerWith (sourceOf [3 / 16, 11 / 16])"
  let ?g = "GroupRoll (plain 5)
          [DiceRollResult (plain 5) (NumberRoll (plain 2)) (NumberRoll (plain 6))
             [(dieTrial 6 2 0)\<lparr>valid := False, drop_flag := True\<rparr>, dieTrial 6 5 1] False]"
  have g: "rollGroup ?cfg [twoD6] (Some [Keep ''h'' (NumberType 1 None)]) initialState
     = Some (Inr ?g, \<lparr>drawn = 2, cached = Map.empty\<rparr>)"
    using twoD6_rolls
    by (simp add: eval_defs rollGroup.simps pool_defs getKeepMethod_def sumValid_def
          dieTrial_def trialFields_def putTrialFields_def RollFields.truncate_def
          twoD6_def trialAt_def List.map_filter_simps numeral_nat)
  from group_single_member[OF g twoD6_rolls] show ?thesis
    using g by (auto simp: hasTarget_def numeral_nat plain_def)
qed

text \<open>
  C8 as stated fails where it recurses. The dice expression whose only child is the
  dice expression around \<^verbatim>\<open>2d6\<close> rolls 2 and 5. The pool of the claim holds these two
  trials, and keep highest 1 leaves 5 in it; the pool of the code holds the die result
  of \<^verbatim>\<open>2d6\<close> itself, with its value 7, which keep highest 1 keeps.
\<close>

theorem group_pool_one_level:
  "rollType (rollerWith (sourceOf [3 / 16, 11 / 16]))
      (GroupedRoll [RollExpressionType (RollExpressionType twoD6 [] None) [] None]
         (Some [Keep ''h'' (NumberType 1 None)]) None) initialState
     = Some (Inr (GroupRoll (plain 7)
          [DiceExpressionRoll (plain 7)
             [DiceExpressionRoll (plain 7)
                [DiceRollResult (plain 7) (NumberRoll (plain 2)) (NumberRoll (plain 6))
                   [dieTrial 6 2 0, dieTrial 6 5 1] False] []] []]),
        \<lparr>drawn = 2, cached = Map.empty\<rparr>) \<and>
   flattenMember (DiceExpressionRoll (plain 7)
             [DiceExpressionRoll (plain 7)
                [DiceRollResult (plain 7) (NumberRoll (plain 2)) (NumberRoll (plain 6))
                   [dieTrial 6 2 0, dieTrial 6 5 1] False] []] [])
     = Inr [DiceRollResult (plain 7) (NumberRoll (plain 2)) (NumberRoll (plain 6))
                   [dieTrial 6 2 0, dieTrial 6 5 1] False] \<and>
   claimedPool (DiceExpressionRoll (plain 7)
             [DiceExpressionRoll (plain 7)
                [DiceRollResult (plain 7) (NumberRoll (plain 2)) (NumberRoll (plain 6))
                   [dieTrial 6 2 0, dieTrial 6 5 1] False] []] [])
     = [dieTrial 6 2 0, dieTrial 6 5 1] \<and>
   sumValid (map trialFields (getKeepMethod trialFields putTrialFields ''h'' 1 roll [dieTrial 6 2 0, dieTrial 6 5 1])) = 5"
  using twoD6_rolls
  by (simp add: eval_defs rollGroup.simps rollDiceExpr.simps pool_defs getKeepMethod_def sumValid_def
        dieTrial_def trialFields_def putTrialFields_def RollFields.truncate_def
        twoD6_def numeral_nat)

end
